theory Spec2Isabelle
  imports Main "HOL-Library.Word" "HOL-Library.Sublist"
begin

section \<open>JavaScript strings\<close>

text \<open>
  A JavaScript string is a sequence of UTF-16 code units; \<open>length\<close>, \<open>trim\<close> and the
  regular expressions of \<open>src/helpers/voice.js\<close> (which carry no \<open>u\<close> flag) all work
  on code units. \<open>js\<close> embeds an ASCII literal of the source.
\<close>

type_synonym jschar = "16 word"
type_synonym jsstring = "jschar list"

definition js :: "string \<Rightarrow> jsstring" where
  "js s = map (\<lambda>c. of_nat (of_char c)) s"

text \<open>ECMAScript LineTerminator: LF, CR, LS, PS.\<close>

definition isLineTerminator :: "jschar \<Rightarrow> bool" where
  "isLineTerminator c \<longleftrightarrow> c = 0x0A \<or> c = 0x0D \<or> c = 0x2028 \<or> c = 0x2029"

text \<open>ECMAScript WhiteSpace (TAB, VT, FF, ZWNBSP and the Unicode category Zs), or a LineTerminator:
  the code units \<open>String.prototype.trim\<close> strips.\<close>

definition isWhiteSpace :: "jschar \<Rightarrow> bool" where
  "isWhiteSpace c \<longleftrightarrow>
     c = 0x09 \<or> c = 0x0B \<or> c = 0x0C \<or> c = 0x20 \<or> c = 0xA0 \<or> c = 0x1680 \<or>
     (0x2000 \<le> c \<and> c \<le> 0x200A) \<or> c = 0x202F \<or> c = 0x205F \<or> c = 0x3000 \<or>
     c = 0xFEFF \<or> isLineTerminator c"

definition trim :: "jsstring \<Rightarrow> jsstring" where
  "trim s = rev (dropWhile isWhiteSpace (rev (dropWhile isWhiteSpace s)))"

text \<open>\<open>Array.prototype.join\<close>: the elements in order, the separator before every element
  but the first. \<open>joinTokens\<close> is the sequence of strings the join emits, \<open>join\<close> their
  concatenation.\<close>

fun joinTokens :: "jsstring \<Rightarrow> jsstring list \<Rightarrow> jsstring list" where
  "joinTokens sep [] = []"
| "joinTokens sep [x] = [x]"
| "joinTokens sep (x # y # ys) = x # sep # joinTokens sep (y # ys)"

definition join :: "jsstring \<Rightarrow> jsstring list \<Rightarrow> jsstring" where
  "join sep xs = concat (joinTokens sep xs)"

section \<open>Text formatting (voice.js, lines 98-103, 106-111, 153-158 and 163-166)\<close>

text \<open>A transcript segment \<open>t\<close> is the pair \<open>(t[0], t[1])\<close>: timecode label and text.\<close>

type_synonym segment = "jsstring \<times> jsstring"

text \<open>\<open>textWithTimecodes.map((t) => `${t[0]}:\n${t[1]}`).join('\n')\<close>\<close>

definition timecodedText :: "segment list \<Rightarrow> jsstring" where
  "timecodedText tw = join [0x0A] (map (\<lambda>t. fst t @ js '':'' @ [0x0A] @ snd t) tw)"

text \<open>\<open>textWithTimecodes.map((t) => t[1].trim()).filter((v) => !!v)\<close>: a string is truthy
  iff it is not empty.\<close>

definition plainPieces :: "segment list \<Rightarrow> jsstring list" where
  "plainPieces tw = filter (\<lambda>v. v \<noteq> []) (map (\<lambda>t. trim (snd t)) tw)"

text \<open>\<open>... .join('. ')\<close>\<close>

definition plainText :: "segment list \<Rightarrow> jsstring" where
  "plainText tw = join (js ''. '') (plainPieces tw)"

text \<open>The display text, \<open>chat.timecodesEnabled ? ... : ...\<close>, with the flag as a
  parameter. The text stored with the voice record is \<open>plainText\<close>, whatever the flag.\<close>

definition formatText :: "bool \<Rightarrow> segment list \<Rightarrow> jsstring" where
  "formatText timecodes tw = (if timecodes then timecodedText tw else plainText tw)"

section \<open>Chunking (voice.js, lines 214 and 259)\<close>

text \<open>
  \<open>text.match(/[\s\S]{1,4000}/g)\<close>: every code unit matches \<open>[\s\S]\<close>, the quantifier is
  greedy, and a global match lists the successive matches from left to right, so each
  match is the next 4000 code units (or what is left). With no match at all the
  result is \<open>null\<close>, here \<open>None\<close>; otherwise it is a non-empty array, here its first
  element (what \<open>chunks.shift()\<close> returns) and the rest (what it leaves in \<open>chunks\<close>).
\<close>

function matchesAny :: "jsstring \<Rightarrow> jsstring list" where
  "matchesAny s = (if s = [] then [] else take 4000 s # matchesAny (drop 4000 s))"
  by pat_completeness auto
termination
  by (relation "measure length") auto

definition matchAny :: "jsstring \<Rightarrow> (jsstring \<times> jsstring list) option" where
  "matchAny s = (case matchesAny s of [] \<Rightarrow> None | m # ms \<Rightarrow> Some (m, ms))"

text \<open>
  \<open>text.match(/.{1,4000}/g)\<close>: without the \<open>s\<close> flag the dot matches every code unit but
  a line terminator. At a line terminator no match starts and the search moves one
  code unit on; elsewhere the match is the longest run of at most 4000 code units that
  are not line terminators, and the search goes on behind it.
\<close>

definition dotRun :: "jsstring \<Rightarrow> jsstring" where
  "dotRun s = take 4000 (takeWhile (\<lambda>c. \<not> isLineTerminator c) s)"

function matchesDot :: "jsstring \<Rightarrow> jsstring list" where
  "matchesDot s =
     (case s of
        [] \<Rightarrow> []
      | c # cs \<Rightarrow>
          if isLineTerminator c then matchesDot cs
          else dotRun s # matchesDot (drop (length (dotRun s)) s))"
  by pat_completeness auto
termination
  by (relation "measure length") (auto simp: dotRun_def)

definition matchDot :: "jsstring \<Rightarrow> (jsstring \<times> jsstring list) option" where
  "matchDot s = (case matchesDot s of [] \<Rightarrow> None | m # ms \<Rightarrow> Some (m, ms))"

section \<open>Data model\<close>

text \<open>What can be thrown: the \<open>TypeError\<close> of the runtime (a property read on
  \<open>undefined\<close> or \<open>null\<close>), or the failure of an external collaborator, with its
  \<open>message\<close> if it has one.\<close>

datatype error = TypeError | Failure "jsstring option"

fun errorMessage :: "error \<Rightarrow> jsstring option" where
  "errorMessage TypeError = Some (js ''Cannot read property of undefined'')"
| "errorMessage (Failure m) = m"

record attachment =
  file_id :: string
  file_size :: "int option"

record message =
  message_id :: int
  voice :: "attachment option"
  document :: "attachment option"
  audio :: "attachment option"
  video_note :: "attachment option"

text \<open>The request context: \<open>ctx.chat.id\<close>, \<open>ctx.message\<close>, \<open>ctx.update.channel_post\<close>.\<close>

record ctx =
  ctx_chat_id :: int
  ctx_message :: "message option"
  ctx_channel_post :: "message option"

text \<open>The fields \<open>sanitizeChat\<close> picks, and the chat document that has them and the
  timecode flag.\<close>

record sanitizedChat =
  chat_id :: int
  engine :: string
  googleLanguage :: string
  witLanguage :: string
  adminLocked :: bool
  silent :: bool
  filesBanned :: bool
  googleSetupMessageId :: "int option"
  googleKey :: "string option"
  language :: string

record chat = sanitizedChat +
  timecodesEnabled :: bool

text \<open>A message the platform returns: \<open>msg.chat.id\<close> and \<open>msg.message_id\<close>.\<close>

record sent =
  sent_chat_id :: int
  sent_message_id :: int

record options =
  parse_mode :: "string option"
  disable_web_page_preview :: "bool option"
  reply_to_message_id :: "int option"

text \<open>The calls on the platform client: \<open>ctx.replyWithMarkdown\<close>,
  \<open>ctx.replyWithChatAction\<close>, \<open>ctx.telegram.editMessageText\<close> (chat id, message id, text,
  options; the inline message id is always \<open>null\<close>), \<open>ctx.telegram.sendMessage\<close>,
  \<open>ctx.reply\<close>.\<close>

datatype call =
    ReplyWithMarkdown jsstring options
  | ReplyWithChatAction string
  | EditMessageText int int jsstring options
  | SendMessage int jsstring options
  | Reply jsstring options

text \<open>Everything a run does to the outside, in order.\<close>

datatype effect =
    FindChat int
  | GetFile string
  | FileUrl string
  | UrlToText string sanitizedChat
  | Telegram call
  | AddVoice string jsstring chat int "segment list" string
  | Report error string
  | ConsoleInfo

text \<open>
  The external collaborators, none of them under \<open>src/\<close>: \<open>findChat\<close> and \<open>addVoice\<close>
  (\<open>./db\<close>), \<open>ctx.telegram.getFile\<close> (its result reduced to \<open>file_path\<close>),
  \<open>urlFinder.fileUrl\<close>, \<open>urlToText\<close> (segments and duration), the platform client
  \<open>telegram\<close> (whose answer may depend on the number of effects before the call, so that
  any combination of failures is an environment), \<open>ctx.i18n.t\<close> and \<open>isRuChat\<close>.
\<close>

record env =
  findChat :: "int \<Rightarrow> error + chat"
  getFile :: "string \<Rightarrow> error + string"
  fileUrl :: "string \<Rightarrow> error + string"
  urlToText :: "string \<Rightarrow> sanitizedChat \<Rightarrow> error + segment list \<times> int"
  addVoice :: "string \<Rightarrow> jsstring \<Rightarrow> error + unit"
  telegram :: "nat \<Rightarrow> call \<Rightarrow> error + sent"
  i18n :: "string \<Rightarrow> jsstring"
  isRuChat :: "chat \<Rightarrow> bool"

text \<open>The state a run threads: the effects so far, and the rejections of promises that
  nothing awaits (unhandled rejections).\<close>

record state =
  trace :: "effect list"
  unhandled :: "error list"

type_synonym 'a prog = "state \<Rightarrow> (error + 'a) \<times> state"

section \<open>Control flow of async functions\<close>

definition ret :: "'a \<Rightarrow> 'a prog" where
  "ret x s = (Inr x, s)"

definition throw :: "error \<Rightarrow> 'a prog" where
  "throw e s = (Inl e, s)"

text \<open>\<open>const x = await m; k(x)\<close>: a rejection of \<open>m\<close> skips \<open>k\<close>.\<close>

definition bnd :: "'a prog \<Rightarrow> ('a \<Rightarrow> 'b prog) \<Rightarrow> 'b prog" where
  "bnd m k s = (case m s of (Inl e, s') \<Rightarrow> (Inl e, s') | (Inr x, s') \<Rightarrow> k x s')"

text \<open>\<open>await f(...)\<close> on a collaborator: the call is recorded, its outcome is \<open>r\<close>.\<close>

definition await :: "effect \<Rightarrow> error + 'a \<Rightarrow> 'a prog" where
  "await eff r s = (r, s\<lparr>trace := trace s @ [eff]\<rparr>)"

definition tg :: "env \<Rightarrow> call \<Rightarrow> sent prog" where
  "tg env c s = (telegram env (length (trace s)) c, s\<lparr>trace := trace s @ [Telegram c]\<rparr>)"

text \<open>\<open>try { m } catch (err) { h(err) }\<close>\<close>

definition tryCatch :: "'a prog \<Rightarrow> (error \<Rightarrow> 'a prog) \<Rightarrow> 'a prog" where
  "tryCatch m h s = (case m s of (Inl e, s') \<Rightarrow> h e s' | (Inr x, s') \<Rightarrow> (Inr x, s'))"

text \<open>\<open>try { m } finally { f }\<close>: \<open>f\<close> runs in either case, and what it throws wins.\<close>

definition tryFinally :: "'a prog \<Rightarrow> unit prog \<Rightarrow> 'a prog" where
  "tryFinally m f s =
     (case m s of (r, s') \<Rightarrow>
        (case f s' of (Inl e, s'') \<Rightarrow> (Inl e, s'') | (Inr _, s'') \<Rightarrow> (r, s'')))"

text \<open>A call of an async function whose promise is neither awaited nor returned: the
  caller goes on whatever happens, and a rejection is an unhandled rejection.\<close>

definition floating :: "'a prog \<Rightarrow> unit prog" where
  "floating m s =
     (case m s of
        (Inl e, s') \<Rightarrow> (Inr (), s'\<lparr>unhandled := unhandled s' @ [e]\<rparr>)
      | (Inr _, s') \<Rightarrow> (Inr (), s'))"

text \<open>Modelled from the spec: \<open>report\<close> of \<open>./report\<close> is not under \<open>src/\<close>; the spec
  gives it as \<open>report(context, error, phaseTag) -> void\<close>, fire-and-forget, never throws.\<close>

definition report :: "error \<Rightarrow> string \<Rightarrow> unit prog" where
  "report err tag s = (Inr (), s\<lparr>trace := trace s @ [Report err tag]\<rparr>)"

text \<open>The \<open>console.info\<close> of the elapsed time.\<close>

definition consoleInfo :: "unit prog" where
  "consoleInfo s = (Inr (), s\<lparr>trace := trace s @ [ConsoleInfo]\<rparr>)"

section \<open>The pipeline (voice.js)\<close>

definition promoExceptions :: "int list" where
  "promoExceptions =
     [-1001122726482, -1001140130398, -1001275987479, -1001128503769, -1001179199008,
      -1001260542215,
      -471839945, -499632766, -428387998, -483383014, -424820225, -453221176, -465403737]"

definition promoTexts :: "string \<rightharpoonup> jsstring" where
  "promoTexts =
     [''en'' \<mapsto> js ''Powered by [Todorant](https://todorant.com/?ref=voicy)'',
      ''ru'' \<mapsto> js ''Powered by [Todorant](https://todorant.com/?ref=voicy)'']"

text \<open>\<open>ctx.message || ctx.update.channel_post\<close>\<close>

definition getMessage :: "ctx \<Rightarrow> message option" where
  "getMessage c = (case ctx_message c of Some m \<Rightarrow> Some m | None \<Rightarrow> ctx_channel_post c)"

text \<open>\<open>message.voice || message.document || message.audio || message.video_note\<close>\<close>

definition getVoice :: "message \<Rightarrow> attachment option" where
  "getVoice m =
     (case voice m of Some v \<Rightarrow> Some v | None \<Rightarrow>
      (case document m of Some v \<Rightarrow> Some v | None \<Rightarrow>
       (case audio m of Some v \<Rightarrow> Some v | None \<Rightarrow> video_note m)))"

text \<open>\<open>voice.file_size && voice.file_size >= 19 * 1024 * 1024\<close>: an absent size and the
  size 0 are falsy.\<close>

definition tooLarge :: "attachment \<Rightarrow> bool" where
  "tooLarge v = (case file_size v of None \<Rightarrow> False | Some n \<Rightarrow> n \<noteq> 0 \<and> n \<ge> 19 * 1024 * 1024)"

text \<open>\<open>chat.engine === 'google' && !chat.googleKey\<close>: an absent key and the empty key
  are falsy.\<close>

definition googleKeyMissing :: "chat \<Rightarrow> bool" where
  "googleKeyMissing c \<longleftrightarrow>
     engine c = ''google'' \<and> (case googleKey c of None \<Rightarrow> True | Some k \<Rightarrow> k = [])"

definition languageFromChat :: "chat \<Rightarrow> string" where
  "languageFromChat c = (if engine c = ''google'' then googleLanguage c else witLanguage c)"

definition sanitizeChat :: "chat \<Rightarrow> sanitizedChat" where
  "sanitizeChat c = sanitizedChat.truncate c"

text \<open>Lines 199-202 and 250-253, the same text in both functions:
  \<open>if (text && !promoExceptions.includes(ctx.chat.id)) text = `${text}\n${promoText}`\<close>.
  A key that \<open>promoTexts\<close> lacks would read \<open>undefined\<close>, which the template prints.\<close>

definition addPromo :: "env \<Rightarrow> ctx \<Rightarrow> chat \<Rightarrow> jsstring \<Rightarrow> jsstring" where
  "addPromo env c ch text =
     (if text \<noteq> [] \<and> ctx_chat_id c \<notin> set promoExceptions then
        text @ [0x0A] @
          (case promoTexts (if isRuChat env ch then ''ru'' else ''en'') of
             Some promoText \<Rightarrow> promoText
           | None \<Rightarrow> js ''undefined'')
      else text)"

definition sendLargeFileError :: "env \<Rightarrow> message \<Rightarrow> sent prog" where
  "sendLargeFileError env m =
     tg env (ReplyWithMarkdown (i18n env ''error_twenty'')
       \<lparr>parse_mode = Some ''Markdown'', disable_web_page_preview = None,
        reply_to_message_id = Some (message_id m)\<rparr>)"

definition sendVoiceRecognitionMessage :: "env \<Rightarrow> message \<Rightarrow> sent prog" where
  "sendVoiceRecognitionMessage env m =
     tg env (ReplyWithMarkdown (i18n env ''initiated'')
       \<lparr>parse_mode = None, disable_web_page_preview = None,
        reply_to_message_id = Some (message_id m)\<rparr>)"

text \<open>\<open>for (const chunk of chunks) await ctx.reply(chunk, opts)\<close>\<close>

fun replyAll :: "env \<Rightarrow> options \<Rightarrow> jsstring list \<Rightarrow> unit prog" where
  "replyAll env opts [] = ret ()"
| "replyAll env opts (chunk # chunks) =
     bnd (tg env (Reply chunk opts)) (\<lambda>_. replyAll env opts chunks)"

definition updateMessagewithTranscription ::
  "env \<Rightarrow> ctx \<Rightarrow> sent \<Rightarrow> jsstring \<Rightarrow> chat \<Rightarrow> unit prog" where
  "updateMessagewithTranscription env c msg text0 ch =
     (let opts = \<lparr>parse_mode = Some ''Markdown'', disable_web_page_preview = Some True,
                  reply_to_message_id = None\<rparr>;
          text = addPromo env c ch text0
      in if text = [] \<or> length text \<le> 4000 then
           bnd (tg env (EditMessageText (sent_chat_id msg) (sent_message_id msg)
                  (if text \<noteq> [] then text else i18n env ''speak_clearly'') opts))
               (\<lambda>_. ret ())
         else
           (case matchAny text of
              None \<Rightarrow> throw TypeError
            | Some (first, chunks) \<Rightarrow>
                bnd (tg env (EditMessageText (sent_chat_id msg) (sent_message_id msg) first opts))
                    (\<lambda>_. replyAll env
                           (opts\<lparr>reply_to_message_id := Some (sent_message_id msg)\<rparr>) chunks)))"

definition sendMessageWithTranscription :: "env \<Rightarrow> ctx \<Rightarrow> jsstring \<Rightarrow> chat \<Rightarrow> unit prog" where
  "sendMessageWithTranscription env c text0 ch =
     (case getMessage c of
        None \<Rightarrow> throw TypeError
      | Some m \<Rightarrow>
         (let opts = \<lparr>parse_mode = Some ''Markdown'', disable_web_page_preview = Some True,
                      reply_to_message_id = Some (message_id m)\<rparr>;
              text = addPromo env c ch text0
          in if text \<noteq> [] \<and> length text < 4000 then
               bnd (tg env (SendMessage (chat_id ch) text opts)) (\<lambda>_. ret ())
             else if text \<noteq> [] then
               (case matchDot text of
                  None \<Rightarrow> throw TypeError
                | Some (first, chunks) \<Rightarrow>
                    bnd (tg env (SendMessage (chat_id ch) first opts))
                        (\<lambda>sentMessage. replyAll env
                           (opts\<lparr>reply_to_message_id := Some (sent_message_id sentMessage)\<rparr>)
                           chunks))
             else ret ()))"

definition updateMessagewithError :: "env \<Rightarrow> ctx \<Rightarrow> sent \<Rightarrow> chat \<Rightarrow> error \<Rightarrow> unit prog" where
  "updateMessagewithError env c msg ch err =
     tryCatch
       (let text = i18n env ''error'';
            text = (if engine ch = ''google'' then
                      text @ [0x0A, 0x0A] @ js ''``` '' @
                        (case errorMessage err of
                           None \<Rightarrow> js ''Unknown error''
                         | Some m \<Rightarrow> if m = [] then js ''Unknown error'' else m) @
                        js ''```''
                    else text)
        in bnd (tg env (EditMessageText (sent_chat_id msg) (sent_message_id msg) text
                  \<lparr>parse_mode = Some ''Markdown'', disable_web_page_preview = None,
                   reply_to_message_id = None\<rparr>))
               (\<lambda>_. ret ()))
       (\<lambda>e. report e ''updateMessagewithError'')"

text \<open>Not an async function: it calls \<open>updateMessagewithTranscription\<close> and drops the
  promise.\<close>

definition updateWithGoogleKeyError :: "env \<Rightarrow> ctx \<Rightarrow> sent \<Rightarrow> chat \<Rightarrow> unit prog" where
  "updateWithGoogleKeyError env c sentMessage ch =
     floating (updateMessagewithTranscription env c sentMessage
                 (i18n env ''google_error_creds'') ch)"

definition sendTranscription :: "env \<Rightarrow> ctx \<Rightarrow> string \<Rightarrow> chat \<Rightarrow> string \<Rightarrow> unit prog" where
  "sendTranscription env c url ch fileId =
     (case getMessage c of
        None \<Rightarrow> throw TypeError
      | Some m \<Rightarrow>
          bnd (sendVoiceRecognitionMessage env m)
            (\<lambda>sentMessage.
               let lan = languageFromChat ch
               in if googleKeyMissing ch then updateWithGoogleKeyError env c sentMessage ch
                  else
                    tryFinally
                      (tryCatch
                         (bnd (await (UrlToText url (sanitizeChat ch))
                                 (urlToText env url (sanitizeChat ch)))
                            (\<lambda>(textWithTimecodes, duration).
                               let text = formatText (timecodesEnabled ch) textWithTimecodes
                               in bnd (updateMessagewithTranscription env c sentMessage text ch)
                                    (\<lambda>_. await
                                       (AddVoice url (plainText textWithTimecodes) ch duration
                                          textWithTimecodes fileId)
                                       (addVoice env url (plainText textWithTimecodes)))))
                         (\<lambda>err. bnd (updateMessagewithError env c sentMessage ch err)
                                   (\<lambda>_. report err ''sendTranscription'')))
                      consoleInfo))"

definition sendAction :: "env \<Rightarrow> ctx \<Rightarrow> string \<Rightarrow> chat \<Rightarrow> string \<Rightarrow> unit prog" where
  "sendAction env c url ch fileId =
     bnd (tg env (ReplyWithChatAction ''typing''))
       (\<lambda>_. let lan = languageFromChat ch
             in if googleKeyMissing ch then ret ()
                else
                  tryFinally
                    (tryCatch
                       (bnd (await (UrlToText url (sanitizeChat ch))
                               (urlToText env url (sanitizeChat ch)))
                          (\<lambda>(textWithTimecodes, duration).
                             let text = formatText (timecodesEnabled ch) textWithTimecodes
                             in bnd (sendMessageWithTranscription env c text ch)
                                  (\<lambda>_. await
                                     (AddVoice url (plainText textWithTimecodes) ch duration
                                        textWithTimecodes fileId)
                                     (addVoice env url (plainText textWithTimecodes)))))
                       (\<lambda>err. report err ''sendTranscription.silent''))
                    consoleInfo)"

definition handleMessage :: "env \<Rightarrow> ctx \<Rightarrow> unit prog" where
  "handleMessage env c =
     tryCatch
       (bnd (await (FindChat (ctx_chat_id c)) (findChat env (ctx_chat_id c)))
          (\<lambda>ch.
             case getMessage c of
               None \<Rightarrow> throw TypeError
             | Some m \<Rightarrow>
                (case getVoice m of
                   None \<Rightarrow> throw TypeError
                 | Some v \<Rightarrow>
                     if tooLarge v then
                       (if \<not> silent ch then bnd (sendLargeFileError env m) (\<lambda>_. ret ())
                        else ret ())
                     else
                       bnd (await (GetFile (file_id v)) (getFile env (file_id v)))
                         (\<lambda>file_path.
                            bnd (await (FileUrl file_path) (fileUrl env file_path))
                              (\<lambda>voiceUrl.
                                 if silent ch then
                                   tryCatch (sendAction env c voiceUrl ch (file_id v))
                                     (\<lambda>err. report err ''sendAction'')
                                 else
                                   tryCatch (sendTranscription env c voiceUrl ch (file_id v))
                                     (\<lambda>err. report err ''sendTranscription''))))))
       (\<lambda>err. report err ''handleMessage'')"

text \<open>A run starts with nothing done.\<close>

definition start :: state where
  "start = \<lparr>trace = [], unhandled = []\<rparr>"

definition run :: "env \<Rightarrow> ctx \<Rightarrow> (error + unit) \<times> state" where
  "run env c = handleMessage env c start"

text \<open>Readings of a trace.\<close>

definition telegramCalls :: "effect list \<Rightarrow> call list" where
  "telegramCalls tr = concat (map (\<lambda>e. case e of Telegram c \<Rightarrow> [c] | _ \<Rightarrow> []) tr)"

definition isEngineCall :: "effect \<Rightarrow> bool" where
  "isEngineCall e = (case e of UrlToText _ _ \<Rightarrow> True | _ \<Rightarrow> False)"

definition isFileResolution :: "effect \<Rightarrow> bool" where
  "isFileResolution e = (case e of GetFile _ \<Rightarrow> True | FileUrl _ \<Rightarrow> True | _ \<Rightarrow> False)"

definition isReport :: "effect \<Rightarrow> bool" where
  "isReport e = (case e of Report _ _ \<Rightarrow> True | _ \<Rightarrow> False)"

text \<open>The texts the calls put into the chat, in order: a call with a text delivers it,
  the typing indicator delivers none.\<close>

definition callText :: "call \<Rightarrow> jsstring list" where
  "callText c =
     (case c of
        ReplyWithMarkdown text _ \<Rightarrow> [text]
      | ReplyWithChatAction _ \<Rightarrow> []
      | EditMessageText _ _ text _ \<Rightarrow> [text]
      | SendMessage _ text _ \<Rightarrow> [text]
      | Reply text _ \<Rightarrow> [text])"

definition deliveredTexts :: "call list \<Rightarrow> jsstring list" where
  "deliveredTexts cs = concat (map callText cs)"

text \<open>A call that puts a message into the chat or changes one (the typing indicator
  does neither).\<close>

definition isMessageCall :: "call \<Rightarrow> bool" where
  "isMessageCall c = (case c of ReplyWithChatAction _ \<Rightarrow> False | _ \<Rightarrow> True)"

section \<open>The spec's wording, and readings of a text\<close>

text \<open>The plain format in the words of the spec (4.2): take each segment's text, trim
  surrounding whitespace, drop segments whose trimmed text is empty, join the rest with
  \<open>". "\<close>. Written by recursion on the segments, apart from \<open>join\<close>.\<close>

fun specPlain :: "segment list \<Rightarrow> jsstring" where
  "specPlain [] = []"
| "specPlain ((label, txt) # rest) =
     (if trim txt = [] then specPlain rest
      else if specPlain rest = [] then trim txt
      else trim txt @ js ''. '' @ specPlain rest)"


text \<open>A voice record is stored with the plain format of its raw segments; any other
  effect passes.\<close>

definition storesPlain :: "effect \<Rightarrow> bool" where
  "storesPlain e =
     (case e of AddVoice url text ch duration tw fileId \<Rightarrow> text = specPlain tw | _ \<Rightarrow> True)"

text \<open>From any state, \<open>m\<close> only appends to the trace, and every effect it appends
  satisfies \<open>Q\<close>.\<close>

definition emitsOnly :: "(effect \<Rightarrow> bool) \<Rightarrow> 'a prog \<Rightarrow> bool" where
  "emitsOnly Q m \<longleftrightarrow> (\<forall>s. \<exists>es. trace (snd (m s)) = trace s @ es \<and> list_all Q es)"

section \<open>Concrete inputs\<close>

definition exSent :: sent where
  "exSent = \<lparr>sent_chat_id = 5, sent_message_id = 12\<rparr>"

definition exChat :: chat where
  "exChat = \<lparr>chat_id = 5, engine = ''wit'', googleLanguage = ''en-US'',
     witLanguage = ''English'', adminLocked = False, silent = False, filesBanned = False,
     googleSetupMessageId = None, googleKey = None, language = ''en'',
     timecodesEnabled = False\<rparr>"

definition exMessage :: "int option \<Rightarrow> message" where
  "exMessage sz =
     \<lparr>message_id = 11, voice = Some \<lparr>file_id = ''f'', file_size = sz\<rparr>, document = None,
      audio = None, video_note = None\<rparr>"

definition exCtx :: "int option \<Rightarrow> ctx" where
  "exCtx sz = \<lparr>ctx_chat_id = 5, ctx_message = Some (exMessage sz), ctx_channel_post = None\<rparr>"

text \<open>An environment in which the chat is \<open>ch\<close>, the engine answers \<open>tw\<close>, the platform
  behaves as \<open>t\<close>, and everything else succeeds; a localized text is its key.\<close>

definition exEnv :: "chat \<Rightarrow> segment list \<Rightarrow> (nat \<Rightarrow> call \<Rightarrow> error + sent) \<Rightarrow> env" where
  "exEnv ch tw t =
     \<lparr>findChat = (\<lambda>_. Inr ch), getFile = (\<lambda>_. Inr ''path''), fileUrl = (\<lambda>_. Inr ''url''),
      urlToText = (\<lambda>_ _. Inr (tw, 3)), addVoice = (\<lambda>_ _. Inr ()), telegram = t,
      i18n = js, isRuChat = (\<lambda>_. False)\<rparr>"

text \<open>A platform that accepts every call, and one that rejects every edit.\<close>

definition tgOk :: "nat \<Rightarrow> call \<Rightarrow> error + sent" where
  "tgOk n c = Inr exSent"

definition tgNoEdit :: "nat \<Rightarrow> call \<Rightarrow> error + sent" where
  "tgNoEdit n c =
     (case c of EditMessageText _ _ _ _ \<Rightarrow> Inl (Failure (Some (js ''Bad Request'')))
      | _ \<Rightarrow> Inr exSent)"

section \<open>Properties of the formatter\<close>



lemma join_Nil: "join sep [] = []"
  by (simp add: join_def)

lemma join_Cons: "join sep (x # xs) = (if xs = [] then x else x @ sep @ join sep xs)"
  by (cases xs) (simp_all add: join_def)

lemma join_empty_iff: "[] \<notin> set xs \<Longrightarrow> join sep xs = [] \<longleftrightarrow> xs = []"
  by (cases xs) (auto simp: join_Cons join_Nil)

lemma plainPieces_nonempty: "[] \<notin> set (plainPieces tw)"
  by (simp add: plainPieces_def)


lemma plainText_specPlain: "plainText tw = specPlain tw"
proof (induction tw)
  case Nil
  show ?case by (simp add: plainText_def plainPieces_def join_Nil)
next
  case (Cons t tw)
  obtain l x where t: "t = (l, x)" by (cases t)
  have e: "join (js ''. '') (plainPieces tw) = [] \<longleftrightarrow> plainPieces tw = []"
    using plainPieces_nonempty by (rule join_empty_iff)
  have pp: "plainPieces ((l, x) # tw) =
      (if trim x = [] then plainPieces tw else trim x # plainPieces tw)"
    by (simp add: plainPieces_def)
  show ?case using Cons e
    by (auto simp add: plainText_def pp join_Cons join_Nil t)
qed











section \<open>The promo step\<close>

text \<open>The promo step: for a chat whose identifier is in \<open>promoExceptions\<close> it leaves
  the text as it is; for every other chat a non-empty text gets a newline and the promo
  text appended, the \<open>ru\<close> entry of \<open>promoTexts\<close> if \<open>isRuChat\<close> holds of the chat and the
  \<open>en\<close> entry otherwise.\<close>

lemma addPromo_cases:
  "(ctx_chat_id c \<in> set promoExceptions \<longrightarrow> addPromo env c ch text = text) \<and>
   (ctx_chat_id c \<notin> set promoExceptions \<and> text \<noteq> [] \<longrightarrow>
      (\<exists>p. promoTexts (if isRuChat env ch then ''ru'' else ''en'') = Some p \<and>
           addPromo env c ch text = text @ 0x0A # p \<and>
           suffix (0x0A # p) (addPromo env c ch text)))"
  by (auto simp: addPromo_def promoTexts_def suffix_def)

section \<open>Properties of the chunkers\<close>

lemma matchesAny_Nil: "matchesAny [] = []"
  by simp

lemma matchesAny_step: "s \<noteq> [] \<Longrightarrow> matchesAny s = take 4000 s # matchesAny (drop 4000 s)"
  by simp

declare matchesAny.simps [simp del]

lemma matchesAny_concat: "concat (matchesAny s) = s"
proof (induction s rule: matchesAny.induct)
  case (1 s)
  show ?case
  proof (cases "s = []")
    case True
    then show ?thesis by (simp add: matchesAny_Nil)
  next
    case False
    with 1 show ?thesis by (simp add: matchesAny_step)
  qed
qed

lemma matchesAny_bounded: "m \<in> set (matchesAny s) \<Longrightarrow> m \<noteq> [] \<and> length m \<le> 4000"
proof (induction s rule: matchesAny.induct)
  case (1 s)
  show ?case
  proof (cases "s = []")
    case True
    with 1 show ?thesis by (simp add: matchesAny_Nil)
  next
    case False
    with 1 show ?thesis by (auto simp: matchesAny_step)
  qed
qed

lemma matchesAny_short: "s \<noteq> [] \<Longrightarrow> length s \<le> 4000 \<Longrightarrow> matchesAny s = [s]"
  by (simp add: matchesAny_step matchesAny_Nil)


text \<open>The chunker of the edit path keeps every code unit: the chunks are non-empty, at most
  4000 long, and their concatenation is the text; a non-empty text always matches.\<close>

lemma matchAny_sound:
  "s \<noteq> [] \<Longrightarrow>
   \<exists>m ms. matchAny s = Some (m, ms) \<and> concat (m # ms) = s \<and>
          (\<forall>x \<in> set (m # ms). x \<noteq> [] \<and> length x \<le> 4000)"
proof -
  assume ne: "s \<noteq> []"
  then obtain m ms where ms: "matchesAny s = m # ms" by (auto simp: matchesAny_step)
  have "concat (m # ms) = s" using matchesAny_concat[of s] ms by simp
  moreover have "\<forall>x \<in> set (m # ms). x \<noteq> [] \<and> length x \<le> 4000"
    using matchesAny_bounded[of _ s] ms by auto
  ultimately show ?thesis using ms by (simp add: matchAny_def)
qed

lemma matchesDot_Nil: "matchesDot [] = []"
  by simp

lemma matchesDot_skip: "isLineTerminator c \<Longrightarrow> matchesDot (c # cs) = matchesDot cs"
  by simp

lemma matchesDot_run:
  "\<not> isLineTerminator c \<Longrightarrow>
   matchesDot (c # cs) = dotRun (c # cs) # matchesDot (drop (length (dotRun (c # cs))) (c # cs))"
  by simp

declare matchesDot.simps [simp del]

lemma dotRun_all: "\<forall>c \<in> set xs. \<not> isLineTerminator c \<Longrightarrow> length xs \<le> 4000 \<Longrightarrow> dotRun xs = xs"
  by (simp add: dotRun_def takeWhile_eq_all_conv[THEN iffD2])

lemma dotRun_prefix:
  "\<forall>c \<in> set xs. \<not> isLineTerminator c \<Longrightarrow> length xs \<le> 4000 \<Longrightarrow> isLineTerminator y \<Longrightarrow>
   dotRun (xs @ y # ys) = xs"
  by (simp add: dotRun_def takeWhile_tail)

text \<open>A run of at most 4000 code units without a line terminator, a line terminator, and
  a second such run: the chunker of the send path returns the two runs and not the line
  terminator between them.\<close>

lemma matchesDot_two_runs:
  assumes xs: "\<forall>c \<in> set xs. \<not> isLineTerminator c" "length xs \<le> 4000" "xs \<noteq> []"
    and y: "isLineTerminator y"
    and zs: "\<forall>c \<in> set zs. \<not> isLineTerminator c" "length zs \<le> 4000" "zs \<noteq> []"
  shows "matchesDot (xs @ y # zs) = [xs, zs]"
proof -
  obtain x xs' where x: "xs = x # xs'" using xs(3) by (cases xs) auto
  obtain z zs' where z: "zs = z # zs'" using zs(3) by (cases zs) auto
  have nx: "\<not> isLineTerminator x" using xs(1) x by simp
  have nz: "\<not> isLineTerminator z" using zs(1) z by simp
  have r1: "dotRun (xs @ y # zs) = xs" using xs(1,2) y by (rule dotRun_prefix)
  have r2: "dotRun zs = zs" using zs(1,2) by (rule dotRun_all)
  have "matchesDot (xs @ y # zs) = xs # matchesDot (y # zs)"
    using matchesDot_run[OF nx, of "xs' @ y # zs"] r1 by (simp add: x)
  also have "matchesDot (y # zs) = matchesDot zs" using y by (rule matchesDot_skip)
  also have "matchesDot zs = [zs]"
    using matchesDot_run[OF nz, of zs'] r2 by (simp add: z matchesDot_Nil)
  finally show ?thesis .
qed

section \<open>Running the control flow\<close>

lemmas prog_defs =
  ret_def throw_def bnd_def await_def tg_def tryCatch_def tryFinally_def floating_def
  report_def consoleInfo_def

lemma replyAll_ok:
  assumes ok: "\<And>n call. telegram env n call = Inr (answer n call)"
  shows "replyAll env opts chunks s =
           (Inr (), s\<lparr>trace := trace s @ map (\<lambda>chunk. Telegram (Reply chunk opts)) chunks\<rparr>)"
  by (induction chunks arbitrary: s) (simp_all add: prog_defs ok)

section \<open>Delivery of a long text\<close>


section \<open>The silent path\<close>

lemma length_js: "length (js s) = length s"
  by (simp add: js_def)

lemma trim_no_blank: "\<not> isWhiteSpace x \<Longrightarrow> trim (replicate n x) = replicate n x"
  by (cases n) (simp_all add: trim_def replicate_app_Cons_same [symmetric] del: replicate_Suc)

lemma promo_no_terminator:
  "\<forall>c \<in> set (js ''Powered by [Todorant](https://todorant.com/?ref=voicy)''). \<not> isLineTerminator c"
  by (simp add: js_def isLineTerminator_def)

lemma send_empty:
  assumes "getMessage c = Some m" and "addPromo env c ch text = []"
  shows "sendMessageWithTranscription env c text ch st = (Inr (), st)"
  using assms by (simp add: sendMessageWithTranscription_def ret_def)

lemma send_chunked:
  assumes m: "getMessage c = Some m"
    and d: "addPromo env c ch text = d" "d \<noteq> []" "\<not> length d < 4000"
    and chunks: "matchDot d = Some (first, rest)"
    and ok: "\<And>n call. telegram env n call = Inr (answer n call)"
  shows "sendMessageWithTranscription env c text ch st =
    (Inr (),
     st\<lparr>trace := trace st @
        Telegram (SendMessage (chat_id ch) first
          \<lparr>parse_mode = Some ''Markdown'', disable_web_page_preview = Some True,
           reply_to_message_id = Some (message_id m)\<rparr>) #
        map (\<lambda>chunk. Telegram (Reply chunk
          \<lparr>parse_mode = Some ''Markdown'', disable_web_page_preview = Some True,
           reply_to_message_id = Some (sent_message_id (answer (length (trace st))
             (SendMessage (chat_id ch) first
               \<lparr>parse_mode = Some ''Markdown'', disable_web_page_preview = Some True,
                reply_to_message_id = Some (message_id m)\<rparr>)))\<rparr>)) rest\<rparr>)"
  unfolding sendMessageWithTranscription_def
  by (simp add: m d chunks Let_def bnd_def tg_def ok replyAll_ok[OF ok])

text \<open>A run for a silent chat, up to the delivery: the chat is found, the attachment is
  below the size gate, the file is resolved, the typing indicator is accepted, the
  credential gate is passed and the engine answers.\<close>

lemma run_silent:
  assumes ch: "findChat env (ctx_chat_id c) = Inr ch" "silent ch" "\<not> googleKeyMissing ch"
    and m: "getMessage c = Some m" "getVoice m = Some v" "\<not> tooLarge v"
    and res: "getFile env (file_id v) = Inr path" "fileUrl env path = Inr url"
    and typing: "telegram env 3 (ReplyWithChatAction ''typing'') = Inr x"
    and engine: "urlToText env url (sanitizeChat ch) = Inr (tw, duration)"
  shows "run env c =
    (case sendMessageWithTranscription env c (formatText (timecodesEnabled ch) tw) ch
            \<lparr>trace = [FindChat (ctx_chat_id c), GetFile (file_id v), FileUrl path,
                      Telegram (ReplyWithChatAction ''typing''),
                      UrlToText url (sanitizeChat ch)],
             unhandled = []\<rparr> of
       (Inl e, s) \<Rightarrow>
         (Inr (), s\<lparr>trace := trace s @ [Report e ''sendTranscription.silent'', ConsoleInfo]\<rparr>)
     | (Inr _, s) \<Rightarrow>
         (case addVoice env url (plainText tw) of
            Inl e \<Rightarrow>
              (Inr (), s\<lparr>trace := trace s @
                 [AddVoice url (plainText tw) ch duration tw (file_id v),
                  Report e ''sendTranscription.silent'', ConsoleInfo]\<rparr>)
          | Inr _ \<Rightarrow>
              (Inr (), s\<lparr>trace := trace s @
                 [AddVoice url (plainText tw) ch duration tw (file_id v), ConsoleInfo]\<rparr>)))"
proof -
  have typing': "telegram env (Suc (Suc (Suc 0))) (ReplyWithChatAction ''typing'') = Inr x"
    using typing by (simp add: numeral_3_eq_3)
  show ?thesis
    unfolding run_def handleMessage_def sendAction_def
    by (simp add: ch m res typing' engine prog_defs start_def Let_def
        split: prod.splits sum.splits)
qed

text \<open>A silent chat that is not promo-exempt receives a transcription of 4000 letters
  \<open>a\<close>: the calls on the platform, the display text, and the chunks against it.\<close>

lemma silent_long_run:
  "telegramCalls (trace (snd (run
      (exEnv (exChat\<lparr>silent := True\<rparr>) [(js ''0:00'', replicate 4000 0x61)] tgOk)
      (exCtx None)))) =
     [ReplyWithChatAction ''typing'',
      SendMessage 5 (replicate 4000 0x61)
        \<lparr>parse_mode = Some ''Markdown'', disable_web_page_preview = Some True,
         reply_to_message_id = Some 11\<rparr>,
      Reply (js ''Powered by [Todorant](https://todorant.com/?ref=voicy)'')
        \<lparr>parse_mode = Some ''Markdown'', disable_web_page_preview = Some True,
         reply_to_message_id = Some 12\<rparr>] \<and>
   addPromo (exEnv (exChat\<lparr>silent := True\<rparr>) [(js ''0:00'', replicate 4000 0x61)] tgOk)
      (exCtx None) (exChat\<lparr>silent := True\<rparr>)
      (formatText False [(js ''0:00'', replicate 4000 0x61)]) =
     replicate 4000 0x61 @ 0x0A # js ''Powered by [Todorant](https://todorant.com/?ref=voicy)'' \<and>
   concat [replicate 4000 0x61, js ''Powered by [Todorant](https://todorant.com/?ref=voicy)''] \<noteq>
     replicate 4000 0x61 @ 0x0A # js ''Powered by [Todorant](https://todorant.com/?ref=voicy)''"
proof -
  let ?a = "replicate 4000 (0x61 :: jschar)"
  let ?p = "js ''Powered by [Todorant](https://todorant.com/?ref=voicy)''"
  let ?ch = "exChat\<lparr>silent := True\<rparr>"
  let ?tw = "[(js ''0:00'', ?a)]"
  let ?env = "exEnv ?ch ?tw tgOk"
  have f: "formatText (timecodesEnabled ?ch) ?tw = ?a"
    by (simp add: formatText_def plainText_def plainPieces_def join_def trim_no_blank
        isWhiteSpace_def isLineTerminator_def exChat_def)
  have d: "addPromo ?env (exCtx None) ?ch ?a = ?a @ 0x0A # ?p"
    by (simp add: addPromo_def exCtx_def promoExceptions_def promoTexts_def exEnv_def)
  have "matchesDot (?a @ 0x0A # ?p) = [?a, ?p]"
    by (rule matchesDot_two_runs)
       (simp_all add: promo_no_terminator, simp_all add: isLineTerminator_def js_def)
  then have chunks: "matchDot (?a @ 0x0A # ?p) = Some (?a, [?p])"
    by (simp add: matchDot_def)
  have ok: "\<And>n call. telegram ?env n call = Inr ((\<lambda>_ _. exSent) n call)"
    by (simp add: exEnv_def tgOk_def)
  have m: "getMessage (exCtx None) = Some (exMessage None)"
    by (simp add: getMessage_def exCtx_def)
  have s: "sendMessageWithTranscription ?env (exCtx None) ?a ?ch st =
      (Inr (), st\<lparr>trace := trace st @
         [Telegram (SendMessage 5 ?a
            \<lparr>parse_mode = Some ''Markdown'', disable_web_page_preview = Some True,
             reply_to_message_id = Some 11\<rparr>),
          Telegram (Reply ?p
            \<lparr>parse_mode = Some ''Markdown'', disable_web_page_preview = Some True,
             reply_to_message_id = Some 12\<rparr>)]\<rparr>)" for st
    using send_chunked [OF m d _ _ chunks ok, of st]
    by (simp add: length_js exChat_def exMessage_def exSent_def)
  have r: "run ?env (exCtx None) =
    (case sendMessageWithTranscription ?env (exCtx None)
            (formatText (timecodesEnabled ?ch) ?tw) ?ch
            \<lparr>trace = [FindChat (ctx_chat_id (exCtx None)),
                      GetFile (file_id \<lparr>file_id = ''f'', file_size = None\<rparr>), FileUrl ''path'',
                      Telegram (ReplyWithChatAction ''typing''),
                      UrlToText ''url'' (sanitizeChat ?ch)],
             unhandled = []\<rparr> of
       (Inl e, s) \<Rightarrow>
         (Inr (), s\<lparr>trace := trace s @ [Report e ''sendTranscription.silent'', ConsoleInfo]\<rparr>)
     | (Inr _, s) \<Rightarrow>
         (case addVoice ?env ''url'' (plainText ?tw) of
            Inl e \<Rightarrow>
              (Inr (), s\<lparr>trace := trace s @
                 [AddVoice ''url'' (plainText ?tw) ?ch 3 ?tw
                    (file_id \<lparr>file_id = ''f'', file_size = None\<rparr>),
                  Report e ''sendTranscription.silent'', ConsoleInfo]\<rparr>)
          | Inr _ \<Rightarrow>
              (Inr (), s\<lparr>trace := trace s @
                 [AddVoice ''url'' (plainText ?tw) ?ch 3 ?tw
                    (file_id \<lparr>file_id = ''f'', file_size = None\<rparr>), ConsoleInfo]\<rparr>)))"
    by (rule run_silent [where m = "exMessage None" and x = exSent])
       (simp_all add: exEnv_def exChat_def googleKeyMissing_def m getVoice_def exMessage_def
          tooLarge_def tgOk_def)
  have calls: "telegramCalls (trace (snd (run ?env (exCtx None)))) =
     [ReplyWithChatAction ''typing'',
      SendMessage 5 ?a
        \<lparr>parse_mode = Some ''Markdown'', disable_web_page_preview = Some True,
         reply_to_message_id = Some 11\<rparr>,
      Reply ?p
        \<lparr>parse_mode = Some ''Markdown'', disable_web_page_preview = Some True,
         reply_to_message_id = Some 12\<rparr>]"
    unfolding r f s by (simp add: telegramCalls_def exEnv_def)
  have n: "concat [?a, ?p] \<noteq> ?a @ 0x0A # ?p"
    by (simp add: js_def)
  have d': "addPromo ?env (exCtx None) ?ch (formatText False ?tw) = ?a @ 0x0A # ?p"
    using f d by (simp add: exChat_def)
  from calls d' n show ?thesis by simp
qed

text \<open>
  C1, at an input where the code departs from it. A silent chat that is not promo-exempt
  receives a transcription of 4000 letters \<open>a\<close>. The display text is the letters, a
  newline and the promo text, 4055 code units, so it is chunked with
  \<open>/.{1,4000}/g\<close>. Two messages are sent, the letters and the promo text; the newline
  between them is in no chunk, and the chunks concatenated are not the display text.
  (In the edit path the chunks of \<open>/[\s\S]{1,4000}/g\<close> do concatenate to the text:
  \<open>matchAny_sound\<close>.)
\<close>

theorem C1_send_path_loses_newline:
  "telegramCalls (trace (snd (run
      (exEnv (exChat\<lparr>silent := True\<rparr>) [(js ''0:00'', replicate 4000 0x61)] tgOk)
      (exCtx None)))) =
     [ReplyWithChatAction ''typing'',
      SendMessage 5 (replicate 4000 0x61)
        \<lparr>parse_mode = Some ''Markdown'', disable_web_page_preview = Some True,
         reply_to_message_id = Some 11\<rparr>,
      Reply (js ''Powered by [Todorant](https://todorant.com/?ref=voicy)'')
        \<lparr>parse_mode = Some ''Markdown'', disable_web_page_preview = Some True,
         reply_to_message_id = Some 12\<rparr>] \<and>
   addPromo (exEnv (exChat\<lparr>silent := True\<rparr>) [(js ''0:00'', replicate 4000 0x61)] tgOk)
      (exCtx None) (exChat\<lparr>silent := True\<rparr>)
      (formatText False [(js ''0:00'', replicate 4000 0x61)]) =
     replicate 4000 0x61 @ 0x0A # js ''Powered by [Todorant](https://todorant.com/?ref=voicy)'' \<and>
   concat [replicate 4000 0x61, js ''Powered by [Todorant](https://todorant.com/?ref=voicy)''] \<noteq>
     replicate 4000 0x61 @ 0x0A # js ''Powered by [Todorant](https://todorant.com/?ref=voicy)''"
  by (rule silent_long_run)

lemma format_empty:
  assumes "formatText timecodes tw = []"
  shows "plainText tw = []"
proof (cases timecodes)
  case False
  with assms show ?thesis by (simp add: formatText_def)
next
  case True
  have "[] \<notin> set (map (\<lambda>t. fst t @ js '':'' @ [0x0A] @ snd t) tw)"
    by (auto simp: js_def)
  moreover have "join [0x0A] (map (\<lambda>t. fst t @ js '':'' @ [0x0A] @ snd t) tw) = []"
    using assms True by (simp add: formatText_def timecodedText_def)
  ultimately have "map (\<lambda>t. fst t @ js '':'' @ [0x0A] @ snd t) tw = []"
    by (simp add: join_empty_iff)
  then show ?thesis by (simp add: plainText_def plainPieces_def join_Nil)
qed

text \<open>
  C9. In silent mode, when the engine answers and the formatted display text is empty,
  the promo step leaves it empty and nothing is sent to the chat: the only call on the
  platform in the whole run is the typing indicator, so there is no fallback text either.
  The voice record is still stored, with the empty aggregate text.
\<close>

theorem C9_silent_empty_text:
  assumes ch: "findChat env (ctx_chat_id c) = Inr ch" "silent ch" "\<not> googleKeyMissing ch"
    and m: "getMessage c = Some m" "getVoice m = Some v" "\<not> tooLarge v"
    and res: "getFile env (file_id v) = Inr path" "fileUrl env path = Inr url"
    and typing: "telegram env 3 (ReplyWithChatAction ''typing'') = Inr x"
    and engine: "urlToText env url (sanitizeChat ch) = Inr (tw, duration)"
    and empty: "formatText (timecodesEnabled ch) tw = []"
  shows "addPromo env c ch (formatText (timecodesEnabled ch) tw) = [] \<and>
         telegramCalls (trace (snd (run env c))) = [ReplyWithChatAction ''typing''] \<and>
         filter isMessageCall (telegramCalls (trace (snd (run env c)))) = [] \<and>
         AddVoice url [] ch duration tw (file_id v) \<in> set (trace (snd (run env c)))"
proof -
  have p: "addPromo env c ch [] = []" by (simp add: addPromo_def)
  have a: "plainText tw = []" using empty by (rule format_empty)
  have s: "sendMessageWithTranscription env c [] ch st = (Inr (), st)" for st
    using m(1) p by (rule send_empty)
  show ?thesis
    unfolding run_silent [OF ch m res typing engine] empty s a
    by (simp add: p telegramCalls_def isMessageCall_def split: sum.splits)
qed

theorem C9_silent_empty_text_witness:
  "telegramCalls (trace (snd (run
      (exEnv (exChat\<lparr>silent := True\<rparr>) [(js ''0:00'', js '' '')] tgOk) (exCtx None)))) =
     [ReplyWithChatAction ''typing''] \<and>
   AddVoice ''url'' [] (exChat\<lparr>silent := True\<rparr>) 3 [(js ''0:00'', js '' '')] ''f''
     \<in> set (trace (snd (run
          (exEnv (exChat\<lparr>silent := True\<rparr>) [(js ''0:00'', js '' '')] tgOk) (exCtx None))))"
proof -
  let ?ch = "exChat\<lparr>silent := True\<rparr>"
  let ?tw = "[(js ''0:00'', js '' '')]"
  let ?env = "exEnv ?ch ?tw tgOk"
  let ?v = "\<lparr>file_id = ''f'', file_size = None\<rparr>"
  have ch: "findChat ?env (ctx_chat_id (exCtx None)) = Inr ?ch" "silent ?ch"
      "\<not> googleKeyMissing ?ch"
    by (simp_all add: exEnv_def exChat_def googleKeyMissing_def)
  have m: "getMessage (exCtx None) = Some (exMessage None)" "getVoice (exMessage None) = Some ?v"
      "\<not> tooLarge ?v"
    by (simp_all add: getMessage_def exCtx_def getVoice_def exMessage_def tooLarge_def)
  have res: "getFile ?env (file_id ?v) = Inr ''path''" "fileUrl ?env ''path'' = Inr ''url''"
    by (simp_all add: exEnv_def)
  have typing: "telegram ?env 3 (ReplyWithChatAction ''typing'') = Inr exSent"
    by (simp add: exEnv_def tgOk_def)
  have engine: "urlToText ?env ''url'' (sanitizeChat ?ch) = Inr (?tw, 3)"
    by (simp add: exEnv_def)
  have empty: "formatText (timecodesEnabled ?ch) ?tw = []"
    by (simp add: formatText_def plainText_def plainPieces_def join_def trim_def js_def
        isWhiteSpace_def exChat_def)
  show ?thesis
    using C9_silent_empty_text [OF ch m res typing engine empty] by simp
qed

section \<open>The size gate\<close>

text \<open>
  C2. When the chat is found and the attachment has a known size (present and not 0) of at
  least 19 * 1024 * 1024 bytes, the run resolves no file, calls no engine and ends
  normally. For an interactive chat the platform gets exactly one call, the localized
  \<open>error_twenty\<close> notice as a reply to the original message. For a silent chat the run
  does nothing after the chat lookup: no call on the platform and no report.
\<close>

theorem C2_size_gate:
  assumes ch: "findChat env (ctx_chat_id c) = Inr ch"
    and m: "getMessage c = Some m" "getVoice m = Some v"
    and size: "file_size v = Some n" "n \<noteq> 0" "n \<ge> 19 * 1024 * 1024"
  shows "fst (run env c) = Inr () \<and>
         filter (\<lambda>e. isEngineCall e \<or> isFileResolution e) (trace (snd (run env c))) = [] \<and>
         (\<not> silent ch \<longrightarrow>
            telegramCalls (trace (snd (run env c))) =
              [ReplyWithMarkdown (i18n env ''error_twenty'')
                 \<lparr>parse_mode = Some ''Markdown'', disable_web_page_preview = None,
                  reply_to_message_id = Some (message_id m)\<rparr>]) \<and>
         (silent ch \<longrightarrow> trace (snd (run env c)) = [FindChat (ctx_chat_id c)])"
proof -
  have big: "tooLarge v" using size by (simp add: tooLarge_def)
  show ?thesis
    unfolding run_def handleMessage_def sendLargeFileError_def
    by (simp add: ch m big prog_defs start_def telegramCalls_def isEngineCall_def
        isFileResolution_def split: sum.splits)
qed

theorem C2_size_gate_witness:
  "telegramCalls (trace (snd (run (exEnv exChat [] tgOk) (exCtx (Some (19 * 1024 * 1024)))))) =
     [ReplyWithMarkdown (js ''error_twenty'')
        \<lparr>parse_mode = Some ''Markdown'', disable_web_page_preview = None,
         reply_to_message_id = Some 11\<rparr>] \<and>
   trace (snd (run (exEnv (exChat\<lparr>silent := True\<rparr>) [] tgOk) (exCtx (Some (19 * 1024 * 1024)))))
     = [FindChat 5]"
proof -
  let ?c = "exCtx (Some (19 * 1024 * 1024))"
  let ?m = "exMessage (Some (19 * 1024 * 1024))"
  let ?v = "\<lparr>file_id = ''f'', file_size = Some (19 * 1024 * 1024)\<rparr>"
  have m: "getMessage ?c = Some ?m" "getVoice ?m = Some ?v"
    by (simp_all add: getMessage_def exCtx_def getVoice_def exMessage_def)
  have size: "file_size ?v = Some (19 * 1024 * 1024)" "(19 * 1024 * 1024 :: int) \<noteq> 0"
      "(19 * 1024 * 1024 :: int) \<ge> 19 * 1024 * 1024"
    by simp_all
  have ch1: "findChat (exEnv exChat [] tgOk) (ctx_chat_id ?c) = Inr exChat"
    by (simp add: exEnv_def)
  have ch2: "findChat (exEnv (exChat\<lparr>silent := True\<rparr>) [] tgOk) (ctx_chat_id ?c)
      = Inr (exChat\<lparr>silent := True\<rparr>)"
    by (simp add: exEnv_def)
  show ?thesis
    using C2_size_gate [OF ch1 m size] C2_size_gate [OF ch2 m size]
    by (simp add: exChat_def exEnv_def exMessage_def exCtx_def)
qed

section \<open>The credential gate\<close>

lemma isEngineCall_simps:
  "isEngineCall (UrlToText u sc)" "\<not> isEngineCall (FindChat i)" "\<not> isEngineCall (GetFile f)"
  "\<not> isEngineCall (FileUrl f)" "\<not> isEngineCall (Telegram call)"
  "\<not> isEngineCall (AddVoice u t ch d tw f)" "\<not> isEngineCall (Report e tag)"
  "\<not> isEngineCall ConsoleInfo"
  by (simp_all add: isEngineCall_def)

lemma replyAll_engine_calls:
  "filter isEngineCall (trace (snd (replyAll env opts chunks s))) = filter isEngineCall (trace s)"
proof (induction chunks arbitrary: s)
  case Nil
  show ?case by (simp add: ret_def)
next
  case (Cons chunk chunks)
  show ?case
    by (simp add: bnd_def tg_def Cons isEngineCall_simps split: sum.splits)
qed

lemma update_engine_calls:
  "filter isEngineCall (trace (snd (updateMessagewithTranscription env c msg text ch s)))
     = filter isEngineCall (trace s)"
  unfolding updateMessagewithTranscription_def
  by (simp add: Let_def bnd_def tg_def ret_def throw_def replyAll_engine_calls
      isEngineCall_simps split: sum.splits option.splits prod.splits)

lemma floating_trace: "trace (snd (floating m s)) = trace (snd (m s))"
  by (simp add: floating_def split: prod.splits sum.splits)

lemma floating_returns: "fst (floating m s) = Inr ()"
  by (simp add: floating_def split: prod.splits sum.splits)

lemma floating_pair: "floating m s = (Inr (), snd (floating m s))"
  by (simp add: floating_def split: prod.splits sum.splits)

lemma update_short:
  assumes "addPromo env c ch text = d" "d \<noteq> []" "length d \<le> 4000"
  shows "trace (snd (updateMessagewithTranscription env c msg text ch s)) =
           trace s @ [Telegram (EditMessageText (sent_chat_id msg) (sent_message_id msg) d
             \<lparr>parse_mode = Some ''Markdown'', disable_web_page_preview = Some True,
              reply_to_message_id = None\<rparr>)]"
  unfolding updateMessagewithTranscription_def
  by (simp add: assms Let_def bnd_def tg_def ret_def split: sum.splits)

text \<open>A run for an interactive chat that selects google and has no key, once the file is
  resolved and the placeholder \<open>p\<close> is sent: the notice is handed to
  \<open>updateMessagewithTranscription\<close>, and nothing waits for it.\<close>

lemma run_missing_key_interactive:
  assumes ch: "findChat env (ctx_chat_id c) = Inr ch" "googleKeyMissing ch" "\<not> silent ch"
    and m: "getMessage c = Some m" "getVoice m = Some v" "\<not> tooLarge v"
    and res: "getFile env (file_id v) = Inr path" "fileUrl env path = Inr url"
    and placeholder: "telegram env 3
        (ReplyWithMarkdown (i18n env ''initiated'')
           \<lparr>parse_mode = None, disable_web_page_preview = None,
            reply_to_message_id = Some (message_id m)\<rparr>) = Inr p"
  shows "run env c =
     floating (updateMessagewithTranscription env c p (i18n env ''google_error_creds'') ch)
       \<lparr>trace = [FindChat (ctx_chat_id c), GetFile (file_id v), FileUrl path,
                 Telegram (ReplyWithMarkdown (i18n env ''initiated'')
                   \<lparr>parse_mode = None, disable_web_page_preview = None,
                    reply_to_message_id = Some (message_id m)\<rparr>)],
        unhandled = []\<rparr>"
proof -
  have placeholder': "telegram env (Suc (Suc (Suc 0)))
        (ReplyWithMarkdown (i18n env ''initiated'')
           \<lparr>parse_mode = None, disable_web_page_preview = None,
            reply_to_message_id = Some (message_id m)\<rparr>) = Inr p"
    using placeholder by (simp add: numeral_3_eq_3)
  show ?thesis
    unfolding run_def handleMessage_def sendTranscription_def updateWithGoogleKeyError_def
      sendVoiceRecognitionMessage_def
    by (simp add: ch m res placeholder' bnd_def await_def tg_def tryCatch_def start_def Let_def
        floating_def split: prod.splits sum.splits)
qed

lemma run_missing_key_silent:
  assumes ch: "findChat env (ctx_chat_id c) = Inr ch" "googleKeyMissing ch" "silent ch"
    and m: "getMessage c = Some m" "getVoice m = Some v" "\<not> tooLarge v"
    and res: "getFile env (file_id v) = Inr path" "fileUrl env path = Inr url"
    and typing: "telegram env 3 (ReplyWithChatAction ''typing'') = Inr x"
  shows "run env c =
     (Inr (),
      \<lparr>trace = [FindChat (ctx_chat_id c), GetFile (file_id v), FileUrl path,
                Telegram (ReplyWithChatAction ''typing'')],
       unhandled = []\<rparr>)"
proof -
  have typing': "telegram env (Suc (Suc (Suc 0))) (ReplyWithChatAction ''typing'') = Inr x"
    using typing by (simp add: numeral_3_eq_3)
  show ?thesis
    unfolding run_def handleMessage_def sendAction_def
    by (simp add: ch m res typing' prog_defs start_def Let_def)
qed

text \<open>With google selected and no key, no run calls the engine, whatever fails.\<close>

lemma missing_key_no_engine_call:
  assumes ch: "findChat env (ctx_chat_id c) = Inr ch" "googleKeyMissing ch"
  shows "filter isEngineCall (trace (snd (run env c))) = []"
proof -
  have fl: "(case floating m s of (Inl e, s') \<Rightarrow> h e s' | (Inr x, s') \<Rightarrow> (Inr x, s'))
      = (Inr (), snd (floating m s))" for m :: "unit prog" and s and h :: "error \<Rightarrow> unit prog"
    by (subst floating_pair) simp
  show ?thesis
    unfolding run_def handleMessage_def sendTranscription_def sendAction_def
      updateWithGoogleKeyError_def sendVoiceRecognitionMessage_def sendLargeFileError_def
    by (simp add: ch bnd_def await_def tg_def tryCatch_def ret_def throw_def report_def
        start_def Let_def fl floating_trace update_engine_calls isEngineCall_simps
        split: sum.splits option.splits)
qed

text \<open>
  C3, as stated, fails where the chat is not promo-exempt: an interactive chat that
  selects google and has no key gets its placeholder edited to the credential-error text
  followed by a newline and the promo text, not to the credential-error text.
\<close>

theorem C3_notice_carries_promo:
  "telegramCalls (trace (snd (run (exEnv (exChat\<lparr>engine := ''google''\<rparr>) [] tgOk) (exCtx None)))) =
     [ReplyWithMarkdown (js ''initiated'')
        \<lparr>parse_mode = None, disable_web_page_preview = None, reply_to_message_id = Some 11\<rparr>,
      EditMessageText 5 12
        (js ''google_error_creds'' @ 0x0A #
           js ''Powered by [Todorant](https://todorant.com/?ref=voicy)'')
        \<lparr>parse_mode = Some ''Markdown'', disable_web_page_preview = Some True,
         reply_to_message_id = None\<rparr>] \<and>
   js ''google_error_creds'' @ 0x0A # js ''Powered by [Todorant](https://todorant.com/?ref=voicy)''
     \<noteq> i18n (exEnv (exChat\<lparr>engine := ''google''\<rparr>) [] tgOk) ''google_error_creds''"
proof -
  let ?ch = "exChat\<lparr>engine := ''google''\<rparr>"
  let ?env = "exEnv ?ch [] tgOk"
  let ?v = "\<lparr>file_id = ''f'', file_size = None\<rparr>"
  let ?p = "js ''Powered by [Todorant](https://todorant.com/?ref=voicy)''"
  have ch: "findChat ?env (ctx_chat_id (exCtx None)) = Inr ?ch" "googleKeyMissing ?ch"
      "\<not> silent ?ch"
    by (simp_all add: exEnv_def exChat_def googleKeyMissing_def)
  have m: "getMessage (exCtx None) = Some (exMessage None)" "getVoice (exMessage None) = Some ?v"
      "\<not> tooLarge ?v"
    by (simp_all add: getMessage_def exCtx_def getVoice_def exMessage_def tooLarge_def)
  have res: "getFile ?env (file_id ?v) = Inr ''path''" "fileUrl ?env ''path'' = Inr ''url''"
    by (simp_all add: exEnv_def)
  have placeholder: "telegram ?env 3
        (ReplyWithMarkdown (i18n ?env ''initiated'')
           \<lparr>parse_mode = None, disable_web_page_preview = None,
            reply_to_message_id = Some (message_id (exMessage None))\<rparr>) = Inr exSent"
    by (simp add: exEnv_def tgOk_def)
  have d: "addPromo ?env (exCtx None) ?ch (i18n ?env ''google_error_creds'')
      = js ''google_error_creds'' @ 0x0A # ?p"
    by (simp add: addPromo_def exCtx_def promoExceptions_def promoTexts_def exEnv_def js_def)
  have calls: "telegramCalls (trace (snd (run ?env (exCtx None)))) =
     [ReplyWithMarkdown (js ''initiated'')
        \<lparr>parse_mode = None, disable_web_page_preview = None, reply_to_message_id = Some 11\<rparr>,
      EditMessageText 5 12 (js ''google_error_creds'' @ 0x0A # ?p)
        \<lparr>parse_mode = Some ''Markdown'', disable_web_page_preview = Some True,
         reply_to_message_id = None\<rparr>]"
    unfolding run_missing_key_interactive [OF ch m res placeholder] floating_trace
    by (subst update_short [OF d])
       (simp_all add: length_js telegramCalls_def exEnv_def exMessage_def exSent_def)
  have "js ''google_error_creds'' @ 0x0A # ?p \<noteq> i18n ?env ''google_error_creds''"
    by (simp add: exEnv_def)
  with calls show ?thesis by simp
qed

text \<open>
  C3, amended. When the chat selects google and has no key, no run calls the engine. Once
  the attachment is below the size gate and the file is resolved: in interactive mode,
  with the placeholder sent, the placeholder is edited to the credential-error text after
  the promo step of the ordinary delivery (for a chat that is not promo-exempt the text
  followed by a newline and the promo text), provided that text is not empty and within
  4000 code units; this edit is the last effect, nothing is reported, and the run ends
  normally. In silent mode, with the typing indicator accepted, that indicator is the
  only call on the platform, nothing is reported, and the run ends normally.
\<close>

theorem C3_credential_gate:
  assumes ch: "findChat env (ctx_chat_id c) = Inr ch" "googleKeyMissing ch"
    and m: "getMessage c = Some m" "getVoice m = Some v" "\<not> tooLarge v"
    and res: "getFile env (file_id v) = Inr path" "fileUrl env path = Inr url"
  shows "filter isEngineCall (trace (snd (run env c))) = [] \<and>
    (\<not> silent ch \<and>
     telegram env 3
       (ReplyWithMarkdown (i18n env ''initiated'')
          \<lparr>parse_mode = None, disable_web_page_preview = None,
           reply_to_message_id = Some (message_id m)\<rparr>) = Inr p \<and>
     addPromo env c ch (i18n env ''google_error_creds'') \<noteq> [] \<and>
     length (addPromo env c ch (i18n env ''google_error_creds'')) \<le> 4000 \<longrightarrow>
       fst (run env c) = Inr () \<and>
       trace (snd (run env c)) =
         [FindChat (ctx_chat_id c), GetFile (file_id v), FileUrl path,
          Telegram (ReplyWithMarkdown (i18n env ''initiated'')
            \<lparr>parse_mode = None, disable_web_page_preview = None,
             reply_to_message_id = Some (message_id m)\<rparr>),
          Telegram (EditMessageText (sent_chat_id p) (sent_message_id p)
            (addPromo env c ch (i18n env ''google_error_creds''))
            \<lparr>parse_mode = Some ''Markdown'', disable_web_page_preview = Some True,
             reply_to_message_id = None\<rparr>)]) \<and>
    (silent ch \<and> telegram env 3 (ReplyWithChatAction ''typing'') = Inr x \<longrightarrow>
       run env c =
         (Inr (),
          \<lparr>trace = [FindChat (ctx_chat_id c), GetFile (file_id v), FileUrl path,
                    Telegram (ReplyWithChatAction ''typing'')],
           unhandled = []\<rparr>))"
proof (intro conjI impI)
  show "filter isEngineCall (trace (snd (run env c))) = []"
    using ch by (rule missing_key_no_engine_call)
next
  assume a: "\<not> silent ch \<and>
     telegram env 3
       (ReplyWithMarkdown (i18n env ''initiated'')
          \<lparr>parse_mode = None, disable_web_page_preview = None,
           reply_to_message_id = Some (message_id m)\<rparr>) = Inr p \<and>
     addPromo env c ch (i18n env ''google_error_creds'') \<noteq> [] \<and>
     length (addPromo env c ch (i18n env ''google_error_creds'')) \<le> 4000"
  then have r: "run env c =
     floating (updateMessagewithTranscription env c p (i18n env ''google_error_creds'') ch)
       \<lparr>trace = [FindChat (ctx_chat_id c), GetFile (file_id v), FileUrl path,
                 Telegram (ReplyWithMarkdown (i18n env ''initiated'')
                   \<lparr>parse_mode = None, disable_web_page_preview = None,
                    reply_to_message_id = Some (message_id m)\<rparr>)],
        unhandled = []\<rparr>"
    using run_missing_key_interactive [OF ch _ m res] by simp
  show "fst (run env c) = Inr ()"
    unfolding r by (rule floating_returns)
  show "trace (snd (run env c)) =
         [FindChat (ctx_chat_id c), GetFile (file_id v), FileUrl path,
          Telegram (ReplyWithMarkdown (i18n env ''initiated'')
            \<lparr>parse_mode = None, disable_web_page_preview = None,
             reply_to_message_id = Some (message_id m)\<rparr>),
          Telegram (EditMessageText (sent_chat_id p) (sent_message_id p)
            (addPromo env c ch (i18n env ''google_error_creds''))
            \<lparr>parse_mode = Some ''Markdown'', disable_web_page_preview = Some True,
             reply_to_message_id = None\<rparr>)]"
    unfolding r floating_trace using a by (subst update_short [OF refl]) simp_all
next
  assume "silent ch \<and> telegram env 3 (ReplyWithChatAction ''typing'') = Inr x"
  then show "run env c =
         (Inr (),
          \<lparr>trace = [FindChat (ctx_chat_id c), GetFile (file_id v), FileUrl path,
                    Telegram (ReplyWithChatAction ''typing'')],
           unhandled = []\<rparr>)"
    using run_missing_key_silent [OF ch _ m res] by simp
qed

theorem C3_credential_gate_witness:
  "filter isEngineCall
     (trace (snd (run (exEnv (exChat\<lparr>engine := ''google''\<rparr>) [] tgOk) (exCtx None)))) = [] \<and>
   trace (snd (run (exEnv (exChat\<lparr>engine := ''google''\<rparr>) [] tgOk) (exCtx None))) =
     [FindChat 5, GetFile ''f'', FileUrl ''path'',
      Telegram (ReplyWithMarkdown (js ''initiated'')
        \<lparr>parse_mode = None, disable_web_page_preview = None, reply_to_message_id = Some 11\<rparr>),
      Telegram (EditMessageText 5 12
        (js ''google_error_creds'' @ 0x0A #
           js ''Powered by [Todorant](https://todorant.com/?ref=voicy)'')
        \<lparr>parse_mode = Some ''Markdown'', disable_web_page_preview = Some True,
         reply_to_message_id = None\<rparr>)] \<and>
   run (exEnv (exChat\<lparr>engine := ''google'', silent := True\<rparr>) [] tgOk) (exCtx None) =
     (Inr (),
      \<lparr>trace = [FindChat 5, GetFile ''f'', FileUrl ''path'',
                Telegram (ReplyWithChatAction ''typing'')],
       unhandled = []\<rparr>)"
proof -
  let ?ch = "exChat\<lparr>engine := ''google''\<rparr>"
  let ?chs = "exChat\<lparr>engine := ''google'', silent := True\<rparr>"
  let ?env = "exEnv ?ch [] tgOk"
  let ?envs = "exEnv ?chs [] tgOk"
  let ?v = "\<lparr>file_id = ''f'', file_size = None\<rparr>"
  let ?p = "js ''Powered by [Todorant](https://todorant.com/?ref=voicy)''"
  have ch: "findChat ?env (ctx_chat_id (exCtx None)) = Inr ?ch" "googleKeyMissing ?ch"
    by (simp_all add: exEnv_def exChat_def googleKeyMissing_def)
  have chs: "findChat ?envs (ctx_chat_id (exCtx None)) = Inr ?chs" "googleKeyMissing ?chs"
    by (simp_all add: exEnv_def exChat_def googleKeyMissing_def)
  have m: "getMessage (exCtx None) = Some (exMessage None)" "getVoice (exMessage None) = Some ?v"
      "\<not> tooLarge ?v"
    by (simp_all add: getMessage_def exCtx_def getVoice_def exMessage_def tooLarge_def)
  have res: "getFile ?env (file_id ?v) = Inr ''path''" "fileUrl ?env ''path'' = Inr ''url''"
    by (simp_all add: exEnv_def)
  have ress: "getFile ?envs (file_id ?v) = Inr ''path''" "fileUrl ?envs ''path'' = Inr ''url''"
    by (simp_all add: exEnv_def)
  have d: "addPromo ?env (exCtx None) ?ch (i18n ?env ''google_error_creds'')
      = js ''google_error_creds'' @ 0x0A # ?p"
    by (simp add: addPromo_def exCtx_def promoExceptions_def promoTexts_def exEnv_def js_def)
  have i: "\<not> silent ?ch \<and>
     telegram ?env 3
       (ReplyWithMarkdown (i18n ?env ''initiated'')
          \<lparr>parse_mode = None, disable_web_page_preview = None,
           reply_to_message_id = Some (message_id (exMessage None))\<rparr>) = Inr exSent \<and>
     addPromo ?env (exCtx None) ?ch (i18n ?env ''google_error_creds'') \<noteq> [] \<and>
     length (addPromo ?env (exCtx None) ?ch (i18n ?env ''google_error_creds'')) \<le> 4000"
    unfolding d by (simp add: exEnv_def tgOk_def exChat_def length_js)
  have s: "silent ?chs \<and> telegram ?envs 3 (ReplyWithChatAction ''typing'') = Inr exSent"
    by (simp add: exEnv_def tgOk_def exChat_def)
  show ?thesis
    using C3_credential_gate [OF ch m res, of exSent exSent]
      C3_credential_gate [OF chs m ress, of exSent exSent] i s
    unfolding d
    by (simp add: exEnv_def exCtx_def exMessage_def exSent_def isEngineCall_simps)
qed

text \<open>
  C10. In interactive mode the missing-credentials notice goes through
  \<open>updateMessagewithTranscription\<close>, the function that delivers a transcription: once the
  placeholder \<open>p\<close> is sent, the rest of the run is that call on the localized
  \<open>google_error_creds\<close> text. So for a chat that is not in \<open>promoExceptions\<close> the
  display text of the (non-empty) notice is the notice, a newline and the promo text, and,
  when that fits into one message, it is the text the placeholder is edited to.
\<close>

theorem C10_credential_notice_promo:
  assumes ch: "findChat env (ctx_chat_id c) = Inr ch" "googleKeyMissing ch" "\<not> silent ch"
    and m: "getMessage c = Some m" "getVoice m = Some v" "\<not> tooLarge v"
    and res: "getFile env (file_id v) = Inr path" "fileUrl env path = Inr url"
    and placeholder: "telegram env 3
        (ReplyWithMarkdown (i18n env ''initiated'')
           \<lparr>parse_mode = None, disable_web_page_preview = None,
            reply_to_message_id = Some (message_id m)\<rparr>) = Inr p"
    and nonexempt: "ctx_chat_id c \<notin> set promoExceptions"
    and notice: "i18n env ''google_error_creds'' \<noteq> []"
  shows "run env c =
     floating (updateMessagewithTranscription env c p (i18n env ''google_error_creds'') ch)
       \<lparr>trace = [FindChat (ctx_chat_id c), GetFile (file_id v), FileUrl path,
                 Telegram (ReplyWithMarkdown (i18n env ''initiated'')
                   \<lparr>parse_mode = None, disable_web_page_preview = None,
                    reply_to_message_id = Some (message_id m)\<rparr>)],
        unhandled = []\<rparr> \<and>
    (\<exists>promo. promoTexts (if isRuChat env ch then ''ru'' else ''en'') = Some promo \<and>
       addPromo env c ch (i18n env ''google_error_creds'') =
         i18n env ''google_error_creds'' @ 0x0A # promo \<and>
       (length (i18n env ''google_error_creds'' @ 0x0A # promo) \<le> 4000 \<longrightarrow>
          telegramCalls (trace (snd (run env c))) =
            [ReplyWithMarkdown (i18n env ''initiated'')
               \<lparr>parse_mode = None, disable_web_page_preview = None,
                reply_to_message_id = Some (message_id m)\<rparr>,
             EditMessageText (sent_chat_id p) (sent_message_id p)
               (i18n env ''google_error_creds'' @ 0x0A # promo)
               \<lparr>parse_mode = Some ''Markdown'', disable_web_page_preview = Some True,
                reply_to_message_id = None\<rparr>]))"
proof -
  note r = run_missing_key_interactive [OF ch(1,2,3) m res placeholder]
  obtain promo where p: "promoTexts (if isRuChat env ch then ''ru'' else ''en'') = Some promo"
    by (auto simp: promoTexts_def)
  have d: "addPromo env c ch (i18n env ''google_error_creds'') =
      i18n env ''google_error_creds'' @ 0x0A # promo"
    using nonexempt notice p by (simp add: addPromo_def)
  have "telegramCalls (trace (snd (run env c))) =
            [ReplyWithMarkdown (i18n env ''initiated'')
               \<lparr>parse_mode = None, disable_web_page_preview = None,
                reply_to_message_id = Some (message_id m)\<rparr>,
             EditMessageText (sent_chat_id p) (sent_message_id p)
               (i18n env ''google_error_creds'' @ 0x0A # promo)
               \<lparr>parse_mode = Some ''Markdown'', disable_web_page_preview = Some True,
                reply_to_message_id = None\<rparr>]"
    if "length (i18n env ''google_error_creds'' @ 0x0A # promo) \<le> 4000"
    unfolding r floating_trace
    by (subst update_short [OF d]) (use that in \<open>simp_all add: telegramCalls_def\<close>)
  with r p d show ?thesis by blast
qed

theorem C10_credential_notice_promo_witness:
  "telegramCalls (trace (snd (run (exEnv (exChat\<lparr>engine := ''google''\<rparr>) [] tgOk) (exCtx None)))) =
     [ReplyWithMarkdown (js ''initiated'')
        \<lparr>parse_mode = None, disable_web_page_preview = None, reply_to_message_id = Some 11\<rparr>,
      EditMessageText 5 12
        (js ''google_error_creds'' @ 0x0A #
           js ''Powered by [Todorant](https://todorant.com/?ref=voicy)'')
        \<lparr>parse_mode = Some ''Markdown'', disable_web_page_preview = Some True,
         reply_to_message_id = None\<rparr>]"
proof -
  let ?ch = "exChat\<lparr>engine := ''google''\<rparr>"
  let ?env = "exEnv ?ch [] tgOk"
  let ?v = "\<lparr>file_id = ''f'', file_size = None\<rparr>"
  have ch: "findChat ?env (ctx_chat_id (exCtx None)) = Inr ?ch" "googleKeyMissing ?ch"
      "\<not> silent ?ch"
    by (simp_all add: exEnv_def exChat_def googleKeyMissing_def)
  have m: "getMessage (exCtx None) = Some (exMessage None)" "getVoice (exMessage None) = Some ?v"
      "\<not> tooLarge ?v"
    by (simp_all add: getMessage_def exCtx_def getVoice_def exMessage_def tooLarge_def)
  have res: "getFile ?env (file_id ?v) = Inr ''path''" "fileUrl ?env ''path'' = Inr ''url''"
    by (simp_all add: exEnv_def)
  have placeholder: "telegram ?env 3
        (ReplyWithMarkdown (i18n ?env ''initiated'')
           \<lparr>parse_mode = None, disable_web_page_preview = None,
            reply_to_message_id = Some (message_id (exMessage None))\<rparr>) = Inr exSent"
    by (simp add: exEnv_def tgOk_def)
  have nonexempt: "ctx_chat_id (exCtx None) \<notin> set promoExceptions"
    by (simp add: exCtx_def promoExceptions_def)
  have notice: "i18n ?env ''google_error_creds'' \<noteq> []"
    by (simp add: exEnv_def js_def)
  have pr: "promoTexts (if isRuChat ?env ?ch then ''ru'' else ''en'') =
      Some (js ''Powered by [Todorant](https://todorant.com/?ref=voicy)'')"
    by (simp add: promoTexts_def exEnv_def)
  show ?thesis
    using C10_credential_notice_promo [OF ch m res placeholder nonexempt notice]
    unfolding pr
    by (auto simp add: length_js exEnv_def exMessage_def exSent_def)
qed

section \<open>Failures and the reporting sink\<close>

text \<open>The promise of \<open>handleMessage\<close> is never rejected: the outer \<open>catch\<close> takes every
  failure that reaches it, and \<open>report\<close> does not throw.\<close>

lemma handleMessage_returns: "fst (handleMessage env c s) = Inr ()"
  unfolding handleMessage_def
  by (simp add: tryCatch_def report_def split: prod.splits sum.splits)

text \<open>
  C4, at an input where the code departs from it. An interactive chat selects google and
  has no key, and the platform rejects the edit of the placeholder. The call of
  \<open>updateMessagewithTranscription\<close> in \<open>updateWithGoogleKeyError\<close> is not awaited, so no
  \<open>catch\<close> sees the rejection: \<open>handleMessage\<close> ends normally, nothing is forwarded to
  \<open>report\<close>, and the failure is left as an unhandled rejection.
\<close>

theorem C4_edit_failure_not_reported:
  "run (exEnv (exChat\<lparr>engine := ''google''\<rparr>) [] tgNoEdit) (exCtx None) =
     (Inr (),
      \<lparr>trace =
         [FindChat 5, GetFile ''f'', FileUrl ''path'',
          Telegram (ReplyWithMarkdown (js ''initiated'')
            \<lparr>parse_mode = None, disable_web_page_preview = None,
             reply_to_message_id = Some 11\<rparr>),
          Telegram (EditMessageText 5 12
            (js ''google_error_creds'' @ 0x0A #
               js ''Powered by [Todorant](https://todorant.com/?ref=voicy)'')
            \<lparr>parse_mode = Some ''Markdown'', disable_web_page_preview = Some True,
             reply_to_message_id = None\<rparr>)],
       unhandled = [Failure (Some (js ''Bad Request''))]\<rparr>) \<and>
   filter isReport
     (trace (snd (run (exEnv (exChat\<lparr>engine := ''google''\<rparr>) [] tgNoEdit) (exCtx None)))) = []"
proof -
  let ?ch = "exChat\<lparr>engine := ''google''\<rparr>"
  let ?env = "exEnv ?ch [] tgNoEdit"
  let ?v = "\<lparr>file_id = ''f'', file_size = None\<rparr>"
  let ?p = "js ''Powered by [Todorant](https://todorant.com/?ref=voicy)''"
  have ch: "findChat ?env (ctx_chat_id (exCtx None)) = Inr ?ch" "googleKeyMissing ?ch"
      "\<not> silent ?ch"
    by (simp_all add: exEnv_def exChat_def googleKeyMissing_def)
  have m: "getMessage (exCtx None) = Some (exMessage None)" "getVoice (exMessage None) = Some ?v"
      "\<not> tooLarge ?v"
    by (simp_all add: getMessage_def exCtx_def getVoice_def exMessage_def tooLarge_def)
  have res: "getFile ?env (file_id ?v) = Inr ''path''" "fileUrl ?env ''path'' = Inr ''url''"
    by (simp_all add: exEnv_def)
  have placeholder: "telegram ?env 3
        (ReplyWithMarkdown (i18n ?env ''initiated'')
           \<lparr>parse_mode = None, disable_web_page_preview = None,
            reply_to_message_id = Some (message_id (exMessage None))\<rparr>) = Inr exSent"
    by (simp add: exEnv_def tgNoEdit_def)
  have d: "addPromo ?env (exCtx None) ?ch (i18n ?env ''google_error_creds'')
      = js ''google_error_creds'' @ 0x0A # ?p"
    by (simp add: addPromo_def exCtx_def promoExceptions_def promoTexts_def exEnv_def js_def)
  have u: "updateMessagewithTranscription ?env (exCtx None) exSent
             (i18n ?env ''google_error_creds'') ?ch st =
      (Inl (Failure (Some (js ''Bad Request''))),
       st\<lparr>trace := trace st @
          [Telegram (EditMessageText 5 12 (js ''google_error_creds'' @ 0x0A # ?p)
             \<lparr>parse_mode = Some ''Markdown'', disable_web_page_preview = Some True,
              reply_to_message_id = None\<rparr>)]\<rparr>)" for st
    unfolding updateMessagewithTranscription_def d
    by (simp add: Let_def length_js bnd_def tg_def exEnv_def tgNoEdit_def exSent_def)
  have r: "run ?env (exCtx None) =
     (Inr (),
      \<lparr>trace =
         [FindChat 5, GetFile ''f'', FileUrl ''path'',
          Telegram (ReplyWithMarkdown (js ''initiated'')
            \<lparr>parse_mode = None, disable_web_page_preview = None,
             reply_to_message_id = Some 11\<rparr>),
          Telegram (EditMessageText 5 12 (js ''google_error_creds'' @ 0x0A # ?p)
            \<lparr>parse_mode = Some ''Markdown'', disable_web_page_preview = Some True,
             reply_to_message_id = None\<rparr>)],
       unhandled = [Failure (Some (js ''Bad Request''))]\<rparr>)"
    unfolding run_missing_key_interactive [OF ch m res placeholder] floating_def u
    by (simp add: exCtx_def exMessage_def exEnv_def)
  show ?thesis unfolding r by (simp add: isReport_def)
qed

section \<open>What a run can emit\<close>

lemma emitsOnly_ret: "emitsOnly Q (ret x)"
  by (simp add: emitsOnly_def ret_def)

lemma emitsOnly_throw: "emitsOnly Q (throw e)"
  by (simp add: emitsOnly_def throw_def)

lemma emitsOnly_await: "Q eff \<Longrightarrow> emitsOnly Q (await eff r)"
  by (simp add: emitsOnly_def await_def)

lemma emitsOnly_tg: "Q (Telegram call) \<Longrightarrow> emitsOnly Q (tg env call)"
  by (simp add: emitsOnly_def tg_def)

lemma emitsOnly_report: "Q (Report e tag) \<Longrightarrow> emitsOnly Q (report e tag)"
  by (simp add: emitsOnly_def report_def)

lemma emitsOnly_consoleInfo: "Q ConsoleInfo \<Longrightarrow> emitsOnly Q consoleInfo"
  by (simp add: emitsOnly_def consoleInfo_def)

lemma emitsOnly_bnd:
  assumes m: "emitsOnly Q m" and k: "\<And>x. emitsOnly Q (k x)"
  shows "emitsOnly Q (bnd m k)"
  unfolding emitsOnly_def
proof
  fix s
  obtain r s' where ms: "m s = (r, s')" by (cases "m s")
  from m obtain es where es: "trace s' = trace s @ es" "list_all Q es"
    unfolding emitsOnly_def using ms by (metis snd_conv)
  show "\<exists>es. trace (snd (bnd m k s)) = trace s @ es \<and> list_all Q es"
  proof (cases r)
    case (Inl e)
    then show ?thesis using ms es by (auto simp: bnd_def)
  next
    case (Inr x)
    from k[of x] obtain es' where "trace (snd (k x s')) = trace s' @ es'" "list_all Q es'"
      unfolding emitsOnly_def by blast
    then show ?thesis using ms es Inr by (auto simp: bnd_def)
  qed
qed

lemma emitsOnly_tryCatch:
  assumes m: "emitsOnly Q m" and h: "\<And>e. emitsOnly Q (h e)"
  shows "emitsOnly Q (tryCatch m h)"
  unfolding emitsOnly_def
proof
  fix s
  obtain r s' where ms: "m s = (r, s')" by (cases "m s")
  from m obtain es where es: "trace s' = trace s @ es" "list_all Q es"
    unfolding emitsOnly_def using ms by (metis snd_conv)
  show "\<exists>es. trace (snd (tryCatch m h s)) = trace s @ es \<and> list_all Q es"
  proof (cases r)
    case (Inr x)
    then show ?thesis using ms es by (auto simp: tryCatch_def)
  next
    case (Inl e)
    from h[of e] obtain es' where "trace (snd (h e s')) = trace s' @ es'" "list_all Q es'"
      unfolding emitsOnly_def by blast
    then show ?thesis using ms es Inl by (auto simp: tryCatch_def)
  qed
qed

lemma emitsOnly_tryFinally:
  assumes m: "emitsOnly Q m" and f: "emitsOnly Q f"
  shows "emitsOnly Q (tryFinally m f)"
  unfolding emitsOnly_def
proof
  fix s
  obtain r s' where ms: "m s = (r, s')" by (cases "m s")
  from m obtain es where es: "trace s' = trace s @ es" "list_all Q es"
    unfolding emitsOnly_def using ms by (metis snd_conv)
  from f obtain es' where es': "trace (snd (f s')) = trace s' @ es'" "list_all Q es'"
    unfolding emitsOnly_def by blast
  show "\<exists>es. trace (snd (tryFinally m f s)) = trace s @ es \<and> list_all Q es"
    using ms es es' by (auto simp: tryFinally_def split: prod.splits sum.splits)
qed

lemma emitsOnly_floating: "emitsOnly Q m \<Longrightarrow> emitsOnly Q (floating m)"
  by (simp add: emitsOnly_def floating_trace)

lemmas emitsOnly_intros =
  emitsOnly_ret emitsOnly_throw emitsOnly_await emitsOnly_tg emitsOnly_report
  emitsOnly_consoleInfo emitsOnly_bnd emitsOnly_tryCatch emitsOnly_tryFinally
  emitsOnly_floating

lemma emitsOnly_replyAll:
  "(\<And>call. Q (Telegram call)) \<Longrightarrow> emitsOnly Q (replyAll env opts chunks)"
  by (induction chunks) (auto intro!: emitsOnly_intros)

lemma emitsOnly_update:
  "(\<And>call. Q (Telegram call)) \<Longrightarrow> emitsOnly Q (updateMessagewithTranscription env c msg text ch)"
  unfolding updateMessagewithTranscription_def Let_def
  by (auto intro!: emitsOnly_intros emitsOnly_replyAll split: option.splits)

lemma emitsOnly_send:
  "(\<And>call. Q (Telegram call)) \<Longrightarrow> emitsOnly Q (sendMessageWithTranscription env c text ch)"
  unfolding sendMessageWithTranscription_def Let_def
  by (auto intro!: emitsOnly_intros emitsOnly_replyAll split: option.splits)

lemma emitsOnly_updateError:
  "(\<And>call. Q (Telegram call)) \<Longrightarrow> (\<And>e tag. Q (Report e tag)) \<Longrightarrow>
   emitsOnly Q (updateMessagewithError env c msg ch err)"
  unfolding updateMessagewithError_def Let_def
  by (auto intro!: emitsOnly_intros)

lemma storesPlain_simps:
  "storesPlain (FindChat i)" "storesPlain (GetFile f)" "storesPlain (FileUrl f)"
  "storesPlain (UrlToText u sc)" "storesPlain (Telegram call)" "storesPlain (Report e tag)"
  "storesPlain ConsoleInfo"
  "storesPlain (AddVoice url text ch duration tw fileId) \<longleftrightarrow> text = specPlain tw"
  by (simp_all add: storesPlain_def)

lemma handleMessage_storesPlain: "emitsOnly storesPlain (handleMessage env c)"
  unfolding handleMessage_def sendTranscription_def sendAction_def updateWithGoogleKeyError_def
    sendLargeFileError_def sendVoiceRecognitionMessage_def Let_def
  by (auto intro!: emitsOnly_intros emitsOnly_update emitsOnly_send emitsOnly_updateError
      simp: storesPlain_simps plainText_specPlain split: option.splits)

section \<open>The stored text\<close>

lemma last_dropWhile: "dropWhile P xs \<noteq> [] \<Longrightarrow> last (dropWhile P xs) = last xs"
  by (induction xs) (auto split: if_splits)

lemma trim_hd: "trim s \<noteq> [] \<Longrightarrow> \<not> isWhiteSpace (hd (trim s))"
proof -
  assume ne: "trim s \<noteq> []"
  define zs where "zs = dropWhile isWhiteSpace s"
  define ys where "ys = dropWhile isWhiteSpace (rev zs)"
  have t: "trim s = rev ys" by (simp add: trim_def ys_def zs_def)
  with ne have y: "ys \<noteq> []" by simp
  then have z: "zs \<noteq> []" by (auto simp: ys_def)
  have "hd (trim s) = last ys" using y t by (simp add: hd_rev)
  also have "\<dots> = last (rev zs)" using y unfolding ys_def by (rule last_dropWhile)
  also have "\<dots> = hd zs" using z by (simp add: last_rev)
  finally have "hd (trim s) = hd zs" .
  moreover have "\<not> isWhiteSpace (hd zs)" using z unfolding zs_def by (rule hd_dropWhile)
  ultimately show ?thesis by simp
qed

lemma join_hd: "x \<noteq> [] \<Longrightarrow> hd (join sep (x # xs)) = hd x"
  by (simp add: join_Cons)

text \<open>A non-empty formatted text has a code unit that is not a line terminator.\<close>

lemma format_visible:
  assumes "formatText timecodes tw \<noteq> []"
  shows "\<exists>x \<in> set (formatText timecodes tw). \<not> isLineTerminator x"
proof (cases timecodes)
  case True
  with assms obtain t ts where tw: "tw = t # ts"
    by (cases tw) (auto simp: formatText_def timecodedText_def join_Nil)
  have "0x3A \<in> set (formatText timecodes tw)"
    using True by (simp add: formatText_def timecodedText_def tw join_Cons js_def)
  moreover have "\<not> isLineTerminator 0x3A" by (simp add: isLineTerminator_def)
  ultimately show ?thesis by blast
next
  case False
  with assms obtain p ps where ps: "plainPieces tw = p # ps"
    by (cases "plainPieces tw") (auto simp: formatText_def plainText_def join_Nil)
  then have "p \<in> set (plainPieces tw)" by simp
  then obtain t :: segment where p: "p = trim (snd t)" "p \<noteq> []"
    by (auto simp: plainPieces_def)
  then have "\<not> isWhiteSpace (hd p)" using trim_hd by simp
  then have "\<not> isLineTerminator (hd p)" by (simp add: isWhiteSpace_def)
  moreover have "hd p \<in> set (formatText timecodes tw)"
    using False p(2) by (cases p) (simp_all add: formatText_def plainText_def ps join_Cons)
  ultimately show ?thesis by blast
qed

lemma display_visible:
  assumes "addPromo env c ch (formatText timecodes tw) \<noteq> []"
  shows "\<exists>x \<in> set (addPromo env c ch (formatText timecodes tw)). \<not> isLineTerminator x"
proof -
  from assms have "formatText timecodes tw \<noteq> []" by (auto simp: addPromo_def split: if_splits)
  then obtain x where "x \<in> set (formatText timecodes tw)" "\<not> isLineTerminator x"
    using format_visible by blast
  then show ?thesis by (auto simp: addPromo_def)
qed

lemma matchesDot_nonempty: "\<exists>x \<in> set s. \<not> isLineTerminator x \<Longrightarrow> matchesDot s \<noteq> []"
proof (induction s)
  case Nil
  then show ?case by simp
next
  case (Cons c cs)
  show ?case
  proof (cases "isLineTerminator c")
    case True
    with Cons show ?thesis by (auto simp: matchesDot_skip)
  next
    case False
    then show ?thesis by (simp add: matchesDot_run)
  qed
qed

text \<open>On a platform that accepts every call, both deliveries of a formatted text end
  normally.\<close>

lemma update_ok:
  assumes ok: "\<And>n call. telegram env n call = Inr (answer n call)"
  shows "fst (updateMessagewithTranscription env c msg text ch s) = Inr ()"
proof (cases "addPromo env c ch text = [] \<or> length (addPromo env c ch text) \<le> 4000")
  case True
  then show ?thesis
    unfolding updateMessagewithTranscription_def
    by (auto simp add: Let_def bnd_def tg_def ret_def ok)
next
  case False
  then obtain first rest where "matchAny (addPromo env c ch text) = Some (first, rest)"
    using matchAny_sound[of "addPromo env c ch text"] by auto
  with False show ?thesis
    unfolding updateMessagewithTranscription_def
    by (simp add: Let_def bnd_def tg_def ok replyAll_ok[OF ok])
qed

lemma send_ok:
  assumes ok: "\<And>n call. telegram env n call = Inr (answer n call)"
    and m: "getMessage c = Some m"
  shows "fst (sendMessageWithTranscription env c (formatText timecodes tw) ch s) = Inr ()"
proof -
  let ?d = "addPromo env c ch (formatText timecodes tw)"
  consider "?d = []" | "?d \<noteq> []" "length ?d < 4000" | "?d \<noteq> []" "\<not> length ?d < 4000"
    by blast
  then show ?thesis
  proof cases
    case 1
    then show ?thesis by (simp add: send_empty[OF m])
  next
    case 2
    then show ?thesis
      unfolding sendMessageWithTranscription_def
      by (simp add: m Let_def bnd_def tg_def ret_def ok)
  next
    case 3
    from 3(1) have "matchesDot ?d \<noteq> []"
      by (intro matchesDot_nonempty display_visible)
    then obtain first rest where "matchDot ?d = Some (first, rest)"
      by (cases "matchesDot ?d") (auto simp: matchDot_def)
    then show ?thesis
      using send_chunked [OF m refl 3 _ ok, of first rest s] by simp
  qed
qed

lemma run_interactive:
  assumes ch: "findChat env (ctx_chat_id c) = Inr ch" "\<not> silent ch" "\<not> googleKeyMissing ch"
    and m: "getMessage c = Some m" "getVoice m = Some v" "\<not> tooLarge v"
    and res: "getFile env (file_id v) = Inr path" "fileUrl env path = Inr url"
    and placeholder: "telegram env 3
        (ReplyWithMarkdown (i18n env ''initiated'')
           \<lparr>parse_mode = None, disable_web_page_preview = None,
            reply_to_message_id = Some (message_id m)\<rparr>) = Inr p"
    and engine: "urlToText env url (sanitizeChat ch) = Inr (tw, duration)"
    and delivered: "updateMessagewithTranscription env c p (formatText (timecodesEnabled ch) tw) ch
            \<lparr>trace = [FindChat (ctx_chat_id c), GetFile (file_id v), FileUrl path,
                      Telegram (ReplyWithMarkdown (i18n env ''initiated'')
                        \<lparr>parse_mode = None, disable_web_page_preview = None,
                         reply_to_message_id = Some (message_id m)\<rparr>),
                      UrlToText url (sanitizeChat ch)],
             unhandled = []\<rparr> = (Inr (), s)"
    and stored: "addVoice env url (plainText tw) = Inr ()"
  shows "run env c =
    (Inr (), s\<lparr>trace := trace s @
       [AddVoice url (plainText tw) ch duration tw (file_id v), ConsoleInfo]\<rparr>)"
proof -
  have placeholder': "telegram env (Suc (Suc (Suc 0)))
        (ReplyWithMarkdown (i18n env ''initiated'')
           \<lparr>parse_mode = None, disable_web_page_preview = None,
            reply_to_message_id = Some (message_id m)\<rparr>) = Inr p"
    using placeholder by (simp add: numeral_3_eq_3)
  show ?thesis
    unfolding run_def handleMessage_def sendTranscription_def sendVoiceRecognitionMessage_def
    by (simp add: ch m res placeholder' engine delivered stored prog_defs start_def Let_def)
qed

lemma specPlain_texts_only: "map snd tw' = map snd tw \<Longrightarrow> specPlain tw' = specPlain tw"
proof -
  assume e: "map snd tw' = map snd tw"
  have "plainPieces x = filter (\<lambda>v. v \<noteq> []) (map trim (map snd x))" for x :: "segment list"
    by (simp add: plainPieces_def comp_def)
  then have "plainPieces tw' = plainPieces tw" by (simp only: e)
  then show ?thesis by (simp add: plainText_specPlain [symmetric] plainText_def)
qed

text \<open>
  C8. In every successful run (the chat is found and passes the size and credential gates,
  the file is resolved, the platform accepts every call, the engine answers, the record is
  stored), interactive or silent, with the timecode flag on or off, the run ends normally
  and stores one voice record whose aggregate text is the plain format of the raw segments
  the engine returned: their texts trimmed, the empty ones dropped, joined by \<open>". "\<close>.
  Every record a run stores has that text. The text is made from the segments' texts only:
  it is the same for any segments with these texts, whatever their timecode labels, and no
  promo step is applied to it.
\<close>

theorem C8_stored_text:
  assumes ch: "findChat env (ctx_chat_id c) = Inr ch" "\<not> googleKeyMissing ch"
    and m: "getMessage c = Some m" "getVoice m = Some v" "\<not> tooLarge v"
    and res: "getFile env (file_id v) = Inr path" "fileUrl env path = Inr url"
    and ok: "\<And>n call. telegram env n call = Inr (answer n call)"
    and engine: "urlToText env url (sanitizeChat ch) = Inr (tw, duration)"
    and stored: "addVoice env url (plainText tw) = Inr ()"
  shows "fst (run env c) = Inr () \<and>
         AddVoice url (specPlain tw) ch duration tw (file_id v) \<in> set (trace (snd (run env c))) \<and>
         list_all storesPlain (trace (snd (run env c))) \<and>
         (\<forall>tw'. map snd tw' = map snd tw \<longrightarrow> specPlain tw' = specPlain tw)"
proof -
  have run: "fst (run env c) = Inr () \<and>
      AddVoice url (plainText tw) ch duration tw (file_id v) \<in> set (trace (snd (run env c)))"
  proof (cases "silent ch")
    case True
    let ?s = "\<lparr>trace = [FindChat (ctx_chat_id c), GetFile (file_id v), FileUrl path,
                      Telegram (ReplyWithChatAction ''typing''),
                      UrlToText url (sanitizeChat ch)],
               unhandled = []\<rparr>"
    obtain s where s: "sendMessageWithTranscription env c (formatText (timecodesEnabled ch) tw) ch ?s
        = (Inr (), s)"
      using send_ok [OF ok m(1), of "timecodesEnabled ch" tw ch ?s]
      by (cases "sendMessageWithTranscription env c (formatText (timecodesEnabled ch) tw) ch ?s")
         simp
    show ?thesis
      unfolding run_silent [OF ch(1) True ch(2) m res ok engine] s
      by (simp add: stored)
  next
    case False
    let ?s = "\<lparr>trace = [FindChat (ctx_chat_id c), GetFile (file_id v), FileUrl path,
                      Telegram (ReplyWithMarkdown (i18n env ''initiated'')
                        \<lparr>parse_mode = None, disable_web_page_preview = None,
                         reply_to_message_id = Some (message_id m)\<rparr>),
                      UrlToText url (sanitizeChat ch)],
               unhandled = []\<rparr>"
    let ?p = "answer 3 (ReplyWithMarkdown (i18n env ''initiated'')
                        \<lparr>parse_mode = None, disable_web_page_preview = None,
                         reply_to_message_id = Some (message_id m)\<rparr>)"
    obtain s where s: "updateMessagewithTranscription env c ?p
        (formatText (timecodesEnabled ch) tw) ch ?s = (Inr (), s)"
      using update_ok [OF ok, of c ?p "formatText (timecodesEnabled ch) tw" ch ?s]
      by (cases "updateMessagewithTranscription env c ?p
            (formatText (timecodesEnabled ch) tw) ch ?s") simp
    show ?thesis
      unfolding run_interactive [OF ch(1) False ch(2) m res ok engine s stored]
      by simp
  qed
  obtain es where "trace (snd (handleMessage env c start)) = trace start @ es"
      "list_all storesPlain es"
    using handleMessage_storesPlain [of env c] unfolding emitsOnly_def by blast
  then have all: "list_all storesPlain (trace (snd (run env c)))"
    by (simp add: run_def start_def)
  have labels: "\<forall>tw'. map snd tw' = map snd tw \<longrightarrow> specPlain tw' = specPlain tw"
    using specPlain_texts_only by blast
  from run have "fst (run env c) = Inr ()"
    and "AddVoice url (specPlain tw) ch duration tw (file_id v) \<in> set (trace (snd (run env c)))"
    by (simp_all add: plainText_specPlain)
  with all labels show ?thesis by blast
qed

theorem C8_stored_text_witness:
  "AddVoice ''url'' (js ''hello'') (exChat\<lparr>timecodesEnabled := True\<rparr>) 3
     [(js ''0:00'', js ''hello ''), (js ''0:05'', js '''')] ''f''
     \<in> set (trace (snd (run
          (exEnv (exChat\<lparr>timecodesEnabled := True\<rparr>)
             [(js ''0:00'', js ''hello ''), (js ''0:05'', js '''')] tgOk)
          (exCtx None)))) \<and>
   specPlain [(js ''9:59'', js ''hello ''), (js ''0:05'', js '''')] =
     specPlain [(js ''0:00'', js ''hello ''), (js ''0:05'', js '''')]"
proof -
  let ?ch = "exChat\<lparr>timecodesEnabled := True\<rparr>"
  let ?tw = "[(js ''0:00'', js ''hello ''), (js ''0:05'', js '''')]"
  let ?env = "exEnv ?ch ?tw tgOk"
  let ?v = "\<lparr>file_id = ''f'', file_size = None\<rparr>"
  have ch: "findChat ?env (ctx_chat_id (exCtx None)) = Inr ?ch" "\<not> googleKeyMissing ?ch"
    by (simp_all add: exEnv_def exChat_def googleKeyMissing_def)
  have m: "getMessage (exCtx None) = Some (exMessage None)" "getVoice (exMessage None) = Some ?v"
      "\<not> tooLarge ?v"
    by (simp_all add: getMessage_def exCtx_def getVoice_def exMessage_def tooLarge_def)
  have res: "getFile ?env (file_id ?v) = Inr ''path''" "fileUrl ?env ''path'' = Inr ''url''"
    by (simp_all add: exEnv_def)
  have ok: "\<And>n call. telegram ?env n call = Inr ((\<lambda>_ _. exSent) n call)"
    by (simp add: exEnv_def tgOk_def)
  have engine: "urlToText ?env ''url'' (sanitizeChat ?ch) = Inr (?tw, 3)"
    by (simp add: exEnv_def)
  have stored: "addVoice ?env ''url'' (plainText ?tw) = Inr ()"
    by (simp add: exEnv_def)
  have t: "specPlain ?tw = js ''hello''"
    by (simp add: trim_def js_def isWhiteSpace_def isLineTerminator_def)
  have l: "map snd [(js ''9:59'', js ''hello ''), (js ''0:05'', js '''')] = map snd ?tw"
    by simp
  note C = C8_stored_text [OF ch m res ok engine stored]
  from C have a: "AddVoice ''url'' (specPlain ?tw) ?ch 3 ?tw (file_id ?v)
      \<in> set (trace (snd (run ?env (exCtx None))))"
    by (rule conjunct1 [OF conjunct2])
  from C have "\<forall>tw'. map snd tw' = map snd ?tw \<longrightarrow> specPlain tw' = specPlain ?tw"
    by (rule conjunct2 [OF conjunct2 [OF conjunct2]])
  with l have b: "specPlain [(js ''9:59'', js ''hello ''), (js ''0:05'', js '''')] = specPlain ?tw"
    by blast
  have f: "file_id ?v = ''f''" by simp
  show ?thesis using a b unfolding t f by (rule conjI)
qed

section \<open>The delivered text and the promo suffix\<close>

text \<open>
  C6, at an input where the code departs from it. The chat of \<open>silent_long_run\<close> is not
  promo-exempt and its display text, 4000 letters \<open>a\<close>, a newline and the promo text, is
  not empty. What the run delivers is two messages, the letters and the promo text.
  Neither of them ends with a newline followed by the promo text, and neither does their
  concatenation: the newline of the suffix is lost in the chunking of the send path.
\<close>

theorem C6_silent_chunks_lose_suffix:
  "ctx_chat_id (exCtx None) \<notin> set promoExceptions \<and>
   promoTexts
     (if isRuChat (exEnv (exChat\<lparr>silent := True\<rparr>) [(js ''0:00'', replicate 4000 0x61)] tgOk)
           (exChat\<lparr>silent := True\<rparr>)
      then ''ru'' else ''en'') =
     Some (js ''Powered by [Todorant](https://todorant.com/?ref=voicy)'') \<and>
   deliveredTexts (telegramCalls (trace (snd (run
      (exEnv (exChat\<lparr>silent := True\<rparr>) [(js ''0:00'', replicate 4000 0x61)] tgOk)
      (exCtx None))))) =
     [replicate 4000 0x61, js ''Powered by [Todorant](https://todorant.com/?ref=voicy)''] \<and>
   \<not> suffix (0x0A # js ''Powered by [Todorant](https://todorant.com/?ref=voicy)'')
       (replicate 4000 0x61) \<and>
   \<not> suffix (0x0A # js ''Powered by [Todorant](https://todorant.com/?ref=voicy)'')
       (js ''Powered by [Todorant](https://todorant.com/?ref=voicy)'') \<and>
   \<not> suffix (0x0A # js ''Powered by [Todorant](https://todorant.com/?ref=voicy)'')
       (replicate 4000 0x61 @ js ''Powered by [Todorant](https://todorant.com/?ref=voicy)'')"
proof -
  let ?a = "replicate 4000 (0x61 :: jschar)"
  let ?p = "js ''Powered by [Todorant](https://todorant.com/?ref=voicy)''"
  have e: "ctx_chat_id (exCtx None) \<notin> set promoExceptions"
    by (simp add: exCtx_def promoExceptions_def)
  have k: "promoTexts
     (if isRuChat (exEnv (exChat\<lparr>silent := True\<rparr>) [(js ''0:00'', ?a)] tgOk)
           (exChat\<lparr>silent := True\<rparr>)
      then ''ru'' else ''en'') = Some ?p"
    by (simp add: promoTexts_def exEnv_def)
  have t: "deliveredTexts (telegramCalls (trace (snd (run
      (exEnv (exChat\<lparr>silent := True\<rparr>) [(js ''0:00'', ?a)] tgOk) (exCtx None))))) = [?a, ?p]"
    by (simp add: conjunct1 [OF silent_long_run] deliveredTexts_def callText_def)
  have n1: "\<not> suffix (0x0A # ?p) ?a"
  proof
    assume "suffix (0x0A # ?p) ?a"
    then have "set (0x0A # ?p) \<subseteq> set ?a" by (rule set_mono_suffix)
    then show False by simp
  qed
  have n2: "\<not> suffix (0x0A # ?p) ?p"
  proof
    assume "suffix (0x0A # ?p) ?p"
    then have "length (0x0A # ?p) \<le> length ?p" by (rule suffix_length_le)
    then show False by simp
  qed
  have n3: "\<not> suffix (0x0A # ?p) (?a @ ?p)"
  proof
    assume "suffix (0x0A # ?p) (?a @ ?p)"
    then have "suffix ([0x0A] @ ?p) (?a @ ?p)" by simp
    then have "suffix [0x0A] ?a" by (simp only: same_suffix_suffix)
    then have "set [0x0A] \<subseteq> set ?a" by (rule set_mono_suffix)
    then show False by simp
  qed
  from e k t n1 n2 n3 show ?thesis by blast
qed

section \<open>A long text in an interactive run\<close>




end
